theory Spec2Isabelle
  imports Complex_Main "HOL-Library.Product_Lexorder" "HOL-Library.Multiset"
begin

section \<open>Calendar dates (Python's \<^verbatim>\<open>datetime.date\<close>)\<close>

text \<open>
  A \<^verbatim>\<open>date\<close> is represented by its proleptic Gregorian ordinal
  (\<^verbatim>\<open>date.toordinal()\<close>, day 1 is 0001-01-01). Python orders and compares
  dates by (year, month, day); on valid dates the ordinal is an order isomorphism, so
  \<open>\<le>\<close> and \<open>=\<close> on ordinals are Python's comparisons. A \<^verbatim>\<open>datetime\<close>
  (only ever \<^verbatim>\<open>datetime.utcnow()\<close>) is an abstract clock reading.
\<close>

type_synonym date = int
type_synonym datetime = nat

definition is_leap :: "int \<Rightarrow> bool" where
  "is_leap y = (y mod 4 = 0 \<and> (y mod 100 \<noteq> 0 \<or> y mod 400 = 0))"

definition days_in_month :: "int \<Rightarrow> int \<Rightarrow> int" where
  "days_in_month y m =
     (if m = 2 then (if is_leap y then 29 else 28)
      else if m = 4 \<or> m = 6 \<or> m = 9 \<or> m = 11 then 30 else 31)"

definition days_before_year :: "int \<Rightarrow> int" where
  "days_before_year y = (y - 1) * 365 + (y - 1) div 4 - (y - 1) div 100 + (y - 1) div 400"

definition days_before_month :: "int \<Rightarrow> int \<Rightarrow> int" where
  "days_before_month y m =
     (if m = 1 then 0 else if m = 2 then 31 else if m = 3 then 59 else if m = 4 then 90
      else if m = 5 then 120 else if m = 6 then 151 else if m = 7 then 181
      else if m = 8 then 212 else if m = 9 then 243 else if m = 10 then 273
      else if m = 11 then 304 else 334)
     + (if 2 < m \<and> is_leap y then 1 else 0)"

definition ymd2ord :: "int \<Rightarrow> int \<Rightarrow> int \<Rightarrow> date" where
  "ymd2ord y m d = days_before_year y + days_before_month y m + d"

text \<open>
  The constructor \<^verbatim>\<open>date(year, month, day)\<close>: a \<^verbatim>\<open>ValueError\<close> (here
  \<open>None\<close>) unless 1 \<le> year \<le> 9999, 1 \<le> month \<le> 12 and the day exists in
  that month.
\<close>

definition mk_date :: "int \<Rightarrow> int \<Rightarrow> int \<Rightarrow> date option" where
  "mk_date y m d =
     (if 1 \<le> y \<and> y \<le> 9999 \<and> 1 \<le> m \<and> m \<le> 12 \<and> 1 \<le> d \<and> d \<le> days_in_month y m
      then Some (ymd2ord y m d) else None)"


subsection \<open>\<^verbatim>\<open>datetime.strptime(s, '%Y-%m-%d').date()\<close>\<close>

text \<open>
  The format compiles to the regular expression
  \<^verbatim>\<open>(\d\d\d\d)-(1[0-2]|0[1-9]|[1-9])-(3[0-1]|[1-2]\d|0[1-9]|[1-9]| [1-9])\<close>,
  matched at the start of the string; text left over after the match is a
  \<^verbatim>\<open>ValueError\<close>, and so is a day the month does not have. Strings are read as
  ASCII. \<open>None\<close> stands for the \<^verbatim>\<open>ValueError\<close>.
\<close>

definition digit_val :: "char \<Rightarrow> int option" where
  "digit_val c =
     (let n = (of_char c :: nat) in if 48 \<le> n \<and> n \<le> 57 then Some (int n - 48) else None)"

fun parse_year :: "string \<Rightarrow> (int \<times> string) option" where
  "parse_year (a # b # c # d # rest) =
     (case (digit_val a, digit_val b, digit_val c, digit_val d) of
        (Some x, Some y, Some z, Some w) \<Rightarrow> Some (x * 1000 + y * 100 + z * 10 + w, rest)
      | _ \<Rightarrow> None)"
| "parse_year _ = None"

text \<open>The month group \<^verbatim>\<open>1[0-2]|0[1-9]|[1-9]\<close>, alternatives tried in this order.\<close>

definition month_two :: "char \<Rightarrow> char \<Rightarrow> int option" where
  "month_two a b =
     (case (digit_val a, digit_val b) of
        (Some x, Some y) \<Rightarrow>
          if x = 1 \<and> y \<le> 2 then Some (10 + y)
          else if x = 0 \<and> 1 \<le> y then Some y
          else None
      | _ \<Rightarrow> None)"

definition one_to_nine :: "char \<Rightarrow> int option" where
  "one_to_nine a = (case digit_val a of Some x \<Rightarrow> if 1 \<le> x then Some x else None | None \<Rightarrow> None)"

fun parse_month :: "string \<Rightarrow> (int \<times> string) option" where
  "parse_month [] = None"
| "parse_month [a] = map_option (\<lambda>m. (m, [])) (one_to_nine a)"
| "parse_month (a # b # rest) =
     (case month_two a b of
        Some m \<Rightarrow> Some (m, rest)
      | None \<Rightarrow> map_option (\<lambda>m. (m, b # rest)) (one_to_nine a))"

text \<open>The day group \<^verbatim>\<open>3[0-1]|[1-2]\d|0[1-9]|[1-9]| [1-9]\<close>.\<close>

definition day_two :: "char \<Rightarrow> char \<Rightarrow> int option" where
  "day_two a b =
     (case (digit_val a, digit_val b) of
        (Some x, Some y) \<Rightarrow>
          if x = 3 \<and> y \<le> 1 then Some (30 + y)
          else if x = 1 \<or> x = 2 then Some (10 * x + y)
          else if x = 0 \<and> 1 \<le> y then Some y
          else None
      | _ \<Rightarrow> None)"

fun parse_day :: "string \<Rightarrow> (int \<times> string) option" where
  "parse_day [] = None"
| "parse_day [a] = map_option (\<lambda>d. (d, [])) (one_to_nine a)"
| "parse_day (a # b # rest) =
     (case day_two a b of
        Some d \<Rightarrow> Some (d, rest)
      | None \<Rightarrow>
          (case one_to_nine a of
             Some d \<Rightarrow> Some (d, b # rest)
           | None \<Rightarrow> if a = CHR '' '' then map_option (\<lambda>d. (d, rest)) (one_to_nine b) else None))"

definition strptime_ymd :: "string \<Rightarrow> date option" where
  "strptime_ymd s =
     (case parse_year s of
        None \<Rightarrow> None
      | Some (y, r1) \<Rightarrow>
          (case r1 of
             [] \<Rightarrow> None
           | c1 # r2 \<Rightarrow>
               if c1 \<noteq> CHR ''-'' then None
               else (case parse_month r2 of
                   None \<Rightarrow> None
                 | Some (m, r3) \<Rightarrow>
                     (case r3 of
                        [] \<Rightarrow> None
                      | c2 # r4 \<Rightarrow>
                          if c2 \<noteq> CHR ''-'' then None
                          else (case parse_day r4 of
                              None \<Rightarrow> None
                            | Some (d, r5) \<Rightarrow> if r5 = [] then mk_date y m d else None)))))"

section \<open>Data model (\<^verbatim>\<open>src/models/models.py\<close>)\<close>

text \<open>
  Each table is the list of its rows in insertion order. Only the columns that the
  roster and dashboard handlers read or write are kept; nullable columns are options.
  \<^verbatim>\<open>role_ref.name\<close> of a user is stored with the user.
\<close>

record user =
  u_id :: int
  u_role_name :: string

record shift =
  s_id :: int
  s_start_time :: nat

record shift_roster =
  sr_id :: int
  sr_employee_id :: int
  sr_shift_id :: int
  sr_date :: date
  sr_hours :: real
  sr_status :: string
  sr_approved_by :: "int option"
  sr_approved_at :: "datetime option"
  sr_notes :: "string option"

record timesheet =
  ts_id :: int
  ts_roster_id :: int

record leave_request =
  lr_id :: int
  lr_employee_id :: int
  lr_start_date :: date
  lr_end_date :: date
  lr_status :: string

record db =
  db_users :: "user list"
  db_shifts :: "shift list"
  db_roster :: "shift_roster list"
  db_timesheets :: "timesheet list"
  db_leave :: "leave_request list"

text \<open>\<^verbatim>\<open>Model.query.get(id)\<close>: the row with that primary key, if any.\<close>

definition user_get :: "db \<Rightarrow> int \<Rightarrow> user option" where
  "user_get d i = find (\<lambda>u. u_id u = i) (db_users d)"

definition shift_get :: "db \<Rightarrow> int \<Rightarrow> shift option" where
  "shift_get d i = find (\<lambda>s. s_id s = i) (db_shifts d)"

definition roster_get :: "db \<Rightarrow> int \<Rightarrow> shift_roster option" where
  "roster_get d i = find (\<lambda>r. sr_id r = i) (db_roster d)"

text \<open>
  \<^verbatim>\<open>get_current_user()\<close> of \<^verbatim>\<open>src/utils/decorators.py\<close>: the user whose id
  is the token's identity.
\<close>

definition get_current_user :: "db \<Rightarrow> int \<Rightarrow> user option" where
  "get_current_user d jwt_identity = user_get d jwt_identity"

text \<open>
  The primary key of an inserted row: the store's next integer key, one past the
  largest in the table.
\<close>

definition next_roster_id :: "db \<Rightarrow> int" where
  "next_roster_id d = fold max (map sr_id (db_roster d)) 0 + 1"

text \<open>\<^verbatim>\<open>db.session.add(roster_entry)\<close>, the row taking its key.\<close>

definition session_add :: "db \<Rightarrow> shift_roster \<Rightarrow> db" where
  "session_add d r = d\<lparr>db_roster := db_roster d @ [r]\<rparr>"

section \<open>Responses\<close>

text \<open>
  One constructor per error body a handler returns; \<open>KeyError\<close> and
  \<open>Internal_error\<close> are exceptions caught by a handler's \<^verbatim>\<open>except Exception\<close>.
\<close>

datatype bulk_message =
    Bulk_field_required string
  | Bulk_employee_not_found
  | Bulk_shift_not_found
  | Bulk_invalid_date_format
  | Bulk_already_scheduled
  | Bulk_exception string

text \<open>\<^verbatim>\<open>f'Entry {i+1}: {message}'\<close>: the 1-based position and the message.\<close>

datatype bulk_error = Entry (position: nat) (message: bulk_message)

datatype error =
    Insufficient_permissions
  | Field_required string
  | Employee_not_found
  | Shift_not_found
  | Invalid_date_format
  | Already_scheduled
  | Roster_entry_not_found
  | Has_timesheets
  | Invalid_action
  | No_entries_provided
  | Some_entries_not_created "bulk_error list"
  | Internal_error

fun status_code :: "error \<Rightarrow> nat" where
  "status_code Insufficient_permissions = 403"
| "status_code (Field_required f) = 400"
| "status_code Employee_not_found = 404"
| "status_code Shift_not_found = 404"
| "status_code Invalid_date_format = 400"
| "status_code Already_scheduled = 400"
| "status_code Roster_entry_not_found = 404"
| "status_code Has_timesheets = 400"
| "status_code Invalid_action = 400"
| "status_code No_entries_provided = 400"
| "status_code (Some_entries_not_created errs) = 400"
| "status_code Internal_error = 500"

text \<open>
  The error taxonomy of the specification (section 7), and the kind each error body
  falls under there.
\<close>

datatype error_kind =
  Unauthenticated | PermissionDenied | NotFound | InvalidInput | Conflict | Internal

fun kind_of :: "error \<Rightarrow> error_kind" where
  "kind_of Insufficient_permissions = PermissionDenied"
| "kind_of (Field_required f) = InvalidInput"
| "kind_of Employee_not_found = NotFound"
| "kind_of Shift_not_found = NotFound"
| "kind_of Invalid_date_format = InvalidInput"
| "kind_of Already_scheduled = Conflict"
| "kind_of Roster_entry_not_found = NotFound"
| "kind_of Has_timesheets = Conflict"
| "kind_of Invalid_action = InvalidInput"
| "kind_of No_entries_provided = InvalidInput"
| "kind_of (Some_entries_not_created errs) = InvalidInput"
| "kind_of Internal_error = Internal"

definition is_admin_or_manager :: "user \<Rightarrow> bool" where
  "is_admin_or_manager u = (u_role_name u = ''Admin'' \<or> u_role_name u = ''Manager'')"

section \<open>Roster entry creation (\<^verbatim>\<open>create_roster_entry\<close>)\<close>

text \<open>
  The JSON body of a creation request. A key that is absent is \<open>None\<close>; the five keys
  the handler reads carry values of their column's type; \<open>ed_other\<close> holds every other
  key of the object with its value as text (for instance \<^verbatim>\<open>status\<close> or
  \<^verbatim>\<open>approved_by\<close>).
\<close>

record entry_data =
  ed_employee_id :: "int option"
  ed_shift_id :: "int option"
  ed_date :: "string option"
  ed_hours :: "real option"
  ed_notes :: "string option"
  ed_other :: "(string \<times> string) list"

text \<open>The keys of \<^verbatim>\<open>required_fields\<close> that the body lacks, in that list's order.\<close>

definition missing_fields :: "entry_data \<Rightarrow> string list" where
  "missing_fields data =
     (if ed_employee_id data = None then [''employee_id''] else []) @
     (if ed_shift_id data = None then [''shift_id''] else []) @
     (if ed_date data = None then [''date''] else []) @
     (if ed_hours data = None then [''hours''] else [])"

text \<open>
  The query \<^verbatim>\<open>ShiftRoster.query.filter(and_(employee_id == e, date == d)).first()\<close>.
\<close>

definition existing_entry :: "db \<Rightarrow> int \<Rightarrow> date \<Rightarrow> shift_roster option" where
  "existing_entry d e dt = find (\<lambda>r. sr_employee_id r = e \<and> sr_date r = dt) (db_roster d)"

text \<open>
  The constructor call \<^verbatim>\<open>ShiftRoster(employee_id=.., shift_id=.., date=.., hours=..,
  notes=data.get('notes', ''))\<close>: \<^verbatim>\<open>status\<close> takes the column default
  \<^verbatim>\<open>'pending'\<close>, \<^verbatim>\<open>approved_by\<close> and \<^verbatim>\<open>approved_at\<close> stay null.
\<close>

definition new_roster_entry :: "db \<Rightarrow> int \<Rightarrow> int \<Rightarrow> date \<Rightarrow> real \<Rightarrow> string option \<Rightarrow> shift_roster" where
  "new_roster_entry d e s dt h notes =
     \<lparr>sr_id = next_roster_id d, sr_employee_id = e, sr_shift_id = s, sr_date = dt,
      sr_hours = h, sr_status = ''pending'', sr_approved_by = None, sr_approved_at = None,
      sr_notes = Some (case notes of None \<Rightarrow> [] | Some n \<Rightarrow> n)\<rparr>"

text \<open>
  The handler returns its response and the committed database. A path that returns
  without \<^verbatim>\<open>commit\<close> leaves the database as it was.
\<close>

definition create_roster_entry :: "db \<Rightarrow> int \<Rightarrow> entry_data \<Rightarrow> (error + shift_roster) \<times> db" where
  "create_roster_entry d jwt data =
     (case get_current_user d jwt of
        None \<Rightarrow> (Inl Internal_error, d)
      | Some current_user \<Rightarrow>
          if \<not> is_admin_or_manager current_user then (Inl Insufficient_permissions, d)
          else (case missing_fields data of
              f # fs \<Rightarrow> (Inl (Field_required f), d)
            | [] \<Rightarrow>
                (case (ed_employee_id data, ed_shift_id data, ed_date data, ed_hours data) of
                   (Some e, Some s, Some ds, Some h) \<Rightarrow>
                     (case user_get d e of
                        None \<Rightarrow> (Inl Employee_not_found, d)
                      | Some employee \<Rightarrow>
                          (case shift_get d s of
                             None \<Rightarrow> (Inl Shift_not_found, d)
                           | Some sh \<Rightarrow>
                               (case strptime_ymd ds of
                                  None \<Rightarrow> (Inl Invalid_date_format, d)
                                | Some roster_date \<Rightarrow>
                                    (case existing_entry d e roster_date of
                                       Some x \<Rightarrow> (Inl Already_scheduled, d)
                                     | None \<Rightarrow>
                                         (let roster_entry =
                                                new_roster_entry d e s roster_date h (ed_notes data)
                                          in (Inr roster_entry, session_add d roster_entry))))))
                 | _ \<Rightarrow> (Inl Internal_error, d))))"

section \<open>Bulk creation (\<^verbatim>\<open>create_bulk_roster\<close>)\<close>

text \<open>
  One pass of the loop body for the entry at index \<open>i\<close>, against the session \<open>d\<close>:
  the error strings it appends and the row it adds, if any. The \<^verbatim>\<open>continue\<close> of
  the required-field check belongs to the inner loop over the field names, so every
  missing field is reported and the body goes on; reading the missing key then raises
  \<^verbatim>\<open>KeyError\<close>, which the body's \<^verbatim>\<open>except Exception\<close> reports
  (\<open>Bulk_exception\<close>, with the key). The session autoflushes before a query, so
  \<open>existing_entry\<close> sees the rows added earlier in the batch.
\<close>

definition bulk_step :: "db \<Rightarrow> nat \<Rightarrow> entry_data \<Rightarrow> bulk_error list \<times> shift_roster option" where
  "bulk_step d i entry_data =
     (let required = map (\<lambda>f. Entry (i + 1) (Bulk_field_required f)) (missing_fields entry_data) in
      case ed_employee_id entry_data of
        None \<Rightarrow> (required @ [Entry (i + 1) (Bulk_exception ''employee_id'')], None)
      | Some e \<Rightarrow>
          (case user_get d e of
             None \<Rightarrow> (required @ [Entry (i + 1) Bulk_employee_not_found], None)
           | Some employee \<Rightarrow>
               (case ed_shift_id entry_data of
                  None \<Rightarrow> (required @ [Entry (i + 1) (Bulk_exception ''shift_id'')], None)
                | Some s \<Rightarrow>
                    (case shift_get d s of
                       None \<Rightarrow> (required @ [Entry (i + 1) Bulk_shift_not_found], None)
                     | Some sh \<Rightarrow>
                         (case ed_date entry_data of
                            None \<Rightarrow> (required @ [Entry (i + 1) (Bulk_exception ''date'')], None)
                          | Some ds \<Rightarrow>
                              (case strptime_ymd ds of
                                 None \<Rightarrow> (required @ [Entry (i + 1) Bulk_invalid_date_format], None)
                               | Some roster_date \<Rightarrow>
                                   (case existing_entry d e roster_date of
                                      Some x \<Rightarrow>
                                        (required @ [Entry (i + 1) Bulk_already_scheduled], None)
                                    | None \<Rightarrow>
                                        (case ed_hours entry_data of
                                           None \<Rightarrow>
                                             (required @ [Entry (i + 1) (Bulk_exception ''hours'')], None)
                                         | Some h \<Rightarrow>
                                             (required,
                                              Some (new_roster_entry d e s roster_date h
                                                      (ed_notes entry_data)))))))))))"

text \<open>
  \<^verbatim>\<open>for i, entry_data in enumerate(entries)\<close>, threading the session, the index,
  \<^verbatim>\<open>created_entries\<close> and \<^verbatim>\<open>errors\<close>.
\<close>

fun bulk_loop ::
  "db \<Rightarrow> nat \<Rightarrow> entry_data list \<Rightarrow> shift_roster list \<Rightarrow> bulk_error list
     \<Rightarrow> db \<times> shift_roster list \<times> bulk_error list" where
  "bulk_loop d i [] created errors = (d, created, errors)"
| "bulk_loop d i (entry_data # rest) created errors =
     (case bulk_step d i entry_data of
        (errs, None) \<Rightarrow> bulk_loop d (i + 1) rest created (errors @ errs)
      | (errs, Some roster_entry) \<Rightarrow>
          bulk_loop (session_add d roster_entry) (i + 1) rest (created @ [roster_entry])
            (errors @ errs))"

text \<open>
  \<open>entries\<close> is \<^verbatim>\<open>data.get('entries', [])\<close>. With errors the session is rolled
  back: the database returned is the one the request found.
\<close>

definition create_bulk_roster ::
  "db \<Rightarrow> int \<Rightarrow> entry_data list \<Rightarrow> (error + shift_roster list) \<times> db" where
  "create_bulk_roster d jwt entries =
     (case get_current_user d jwt of
        None \<Rightarrow> (Inl Internal_error, d)
      | Some current_user \<Rightarrow>
          if \<not> is_admin_or_manager current_user then (Inl Insufficient_permissions, d)
          else if entries = [] then (Inl No_entries_provided, d)
          else (case bulk_loop d 0 entries [] [] of
              (session, created_entries, errors) \<Rightarrow>
                if errors \<noteq> [] then (Inl (Some_entries_not_created errors), d)
                else (Inr created_entries, session)))"

section \<open>Update (\<^verbatim>\<open>update_roster_entry\<close>)\<close>

text \<open>The body of an update is a JSON object with the same keys, all optional.\<close>

definition update_employee :: "db \<Rightarrow> entry_data \<Rightarrow> shift_roster \<Rightarrow> error + shift_roster" where
  "update_employee d data roster_entry =
     (case ed_employee_id data of
        None \<Rightarrow> Inr roster_entry
      | Some e \<Rightarrow>
          (case user_get d e of
             None \<Rightarrow> Inl Employee_not_found
           | Some employee \<Rightarrow> Inr (roster_entry\<lparr>sr_employee_id := e\<rparr>)))"

definition update_shift :: "db \<Rightarrow> entry_data \<Rightarrow> shift_roster \<Rightarrow> error + shift_roster" where
  "update_shift d data roster_entry =
     (case ed_shift_id data of
        None \<Rightarrow> Inr roster_entry
      | Some s \<Rightarrow>
          (case shift_get d s of
             None \<Rightarrow> Inl Shift_not_found
           | Some sh \<Rightarrow> Inr (roster_entry\<lparr>sr_shift_id := s\<rparr>)))"

definition update_date :: "entry_data \<Rightarrow> shift_roster \<Rightarrow> error + shift_roster" where
  "update_date data roster_entry =
     (case ed_date data of
        None \<Rightarrow> Inr roster_entry
      | Some ds \<Rightarrow>
          (case strptime_ymd ds of
             None \<Rightarrow> Inl Invalid_date_format
           | Some dt \<Rightarrow> Inr (roster_entry\<lparr>sr_date := dt\<rparr>)))"

definition update_hours :: "entry_data \<Rightarrow> shift_roster \<Rightarrow> shift_roster" where
  "update_hours data roster_entry =
     (case ed_hours data of None \<Rightarrow> roster_entry | Some h \<Rightarrow> roster_entry\<lparr>sr_hours := h\<rparr>)"

definition update_notes :: "entry_data \<Rightarrow> shift_roster \<Rightarrow> shift_roster" where
  "update_notes data roster_entry =
     (case ed_notes data of None \<Rightarrow> roster_entry | Some n \<Rightarrow> roster_entry\<lparr>sr_notes := Some n\<rparr>)"

text \<open>The \<^verbatim>\<open>UPDATE\<close> a commit issues for a changed row, by primary key.\<close>

definition roster_store :: "db \<Rightarrow> int \<Rightarrow> shift_roster \<Rightarrow> db" where
  "roster_store d i r' = d\<lparr>db_roster := map (\<lambda>r. if sr_id r = i then r' else r) (db_roster d)\<rparr>"

definition update_roster_entry ::
  "db \<Rightarrow> int \<Rightarrow> int \<Rightarrow> entry_data \<Rightarrow> (error + shift_roster) \<times> db" where
  "update_roster_entry d jwt roster_id data =
     (case get_current_user d jwt of
        None \<Rightarrow> (Inl Internal_error, d)
      | Some current_user \<Rightarrow>
          if \<not> is_admin_or_manager current_user then (Inl Insufficient_permissions, d)
          else (case roster_get d roster_id of
              None \<Rightarrow> (Inl Roster_entry_not_found, d)
            | Some roster_entry \<Rightarrow>
                (case update_employee d data roster_entry of
                   Inl err \<Rightarrow> (Inl err, d)
                 | Inr r1 \<Rightarrow>
                     (case update_shift d data r1 of
                        Inl err \<Rightarrow> (Inl err, d)
                      | Inr r2 \<Rightarrow>
                          (case update_date data r2 of
                             Inl err \<Rightarrow> (Inl err, d)
                           | Inr r3 \<Rightarrow>
                               (let r5 = update_notes data (update_hours data r3)
                                in (Inr r5, roster_store d roster_id r5)))))))"

section \<open>Deletion (\<^verbatim>\<open>delete_roster_entry\<close>)\<close>

definition delete_roster_entry :: "db \<Rightarrow> int \<Rightarrow> int \<Rightarrow> (error + unit) \<times> db" where
  "delete_roster_entry d jwt roster_id =
     (case get_current_user d jwt of
        None \<Rightarrow> (Inl Internal_error, d)
      | Some current_user \<Rightarrow>
          if \<not> is_admin_or_manager current_user then (Inl Insufficient_permissions, d)
          else (case roster_get d roster_id of
              None \<Rightarrow> (Inl Roster_entry_not_found, d)
            | Some roster_entry \<Rightarrow>
                if filter (\<lambda>t. ts_roster_id t = sr_id roster_entry) (db_timesheets d) \<noteq> []
                then (Inl Has_timesheets, d)
                else (Inr (), d\<lparr>db_roster := filter (\<lambda>r. sr_id r \<noteq> roster_id) (db_roster d)\<rparr>)))"

section \<open>Approval (\<^verbatim>\<open>approve_roster_entry\<close>)\<close>

text \<open>
  The body: \<^verbatim>\<open>action\<close> and \<^verbatim>\<open>notes\<close>, each possibly absent.
  \<open>now\<close> is \<^verbatim>\<open>datetime.utcnow()\<close>.
\<close>

record approve_data =
  ad_action :: "string option"
  ad_notes :: "string option"

definition approve_roster_entry ::
  "db \<Rightarrow> int \<Rightarrow> int \<Rightarrow> approve_data \<Rightarrow> datetime \<Rightarrow> (error + shift_roster) \<times> db" where
  "approve_roster_entry d jwt roster_id data now =
     (case get_current_user d jwt of
        None \<Rightarrow> (Inl Internal_error, d)
      | Some current_user \<Rightarrow>
          if \<not> is_admin_or_manager current_user then (Inl Insufficient_permissions, d)
          else (case roster_get d roster_id of
              None \<Rightarrow> (Inl Roster_entry_not_found, d)
            | Some roster_entry \<Rightarrow>
                (let action = ad_action data in
                 if action \<noteq> Some ''approve'' \<and> action \<noteq> Some ''reject''
                 then (Inl Invalid_action, d)
                 else
                   (let r' = roster_entry
                         \<lparr>sr_status := (if action = Some ''approve'' then ''approved'' else ''rejected''),
                          sr_approved_by := Some (u_id current_user),
                          sr_approved_at := Some now,
                          sr_notes := (case ad_notes data of
                                         None \<Rightarrow> sr_notes roster_entry
                                       | Some n \<Rightarrow> Some n)\<rparr>
                    in (Inr r', roster_store d roster_id r')))))"

section \<open>Listing (\<^verbatim>\<open>get_roster\<close>)\<close>

text \<open>
  The query parameters after \<^verbatim>\<open>request.args.get\<close>: a parameter that is absent
  (or, for the two ids, not an integer) is \<open>None\<close>. The handler tests each with
  \<^verbatim>\<open>if x:\<close>, which is false for \<open>None\<close>, for the empty string and for 0.
\<close>

record roster_args =
  ra_start_date :: "string option"
  ra_end_date :: "string option"
  ra_employee_id :: "int option"
  ra_shift_id :: "int option"
  ra_status :: "string option"

definition truthy_str :: "string option \<Rightarrow> bool" where
  "truthy_str x = (case x of None \<Rightarrow> False | Some s \<Rightarrow> s \<noteq> [])"

definition truthy_int :: "int option \<Rightarrow> bool" where
  "truthy_int x = (case x of None \<Rightarrow> False | Some i \<Rightarrow> i \<noteq> 0)"

definition role_query :: "db \<Rightarrow> user \<Rightarrow> shift_roster list" where
  "role_query d current_user =
     (if u_role_name current_user = ''Admin'' then db_roster d
      else if u_role_name current_user = ''Manager'' then db_roster d
      else filter (\<lambda>r. sr_employee_id r = u_id current_user) (db_roster d))"

definition filter_start :: "string option \<Rightarrow> shift_roster list \<Rightarrow> error + shift_roster list" where
  "filter_start start_date query =
     (case start_date of
        None \<Rightarrow> Inr query
      | Some s \<Rightarrow>
          if s = [] then Inr query
          else (case strptime_ymd s of
              None \<Rightarrow> Inl Invalid_date_format
            | Some start_date_obj \<Rightarrow> Inr (filter (\<lambda>r. start_date_obj \<le> sr_date r) query)))"

definition filter_end :: "string option \<Rightarrow> shift_roster list \<Rightarrow> error + shift_roster list" where
  "filter_end end_date query =
     (case end_date of
        None \<Rightarrow> Inr query
      | Some s \<Rightarrow>
          if s = [] then Inr query
          else (case strptime_ymd s of
              None \<Rightarrow> Inl Invalid_date_format
            | Some end_date_obj \<Rightarrow> Inr (filter (\<lambda>r. sr_date r \<le> end_date_obj) query)))"

definition filter_rest :: "roster_args \<Rightarrow> shift_roster list \<Rightarrow> shift_roster list" where
  "filter_rest args query =
     (let q1 = (if truthy_int (ra_employee_id args)
                then filter (\<lambda>r. Some (sr_employee_id r) = ra_employee_id args) query else query);
          q2 = (if truthy_int (ra_shift_id args)
                then filter (\<lambda>r. Some (sr_shift_id r) = ra_shift_id args) q1 else q1)
      in (if truthy_str (ra_status args)
          then filter (\<lambda>r. Some (sr_status r) = ra_status args) q2 else q2))"

text \<open>
  \<^verbatim>\<open>query.join(Shift).order_by(ShiftRoster.date, Shift.start_time).all()\<close>: the
  inner join on the shift key, sorted on (date, start time); rows that tie keep the
  table's order.
\<close>

definition join_shift :: "db \<Rightarrow> shift_roster list \<Rightarrow> (shift_roster \<times> shift) list" where
  "join_shift d query =
     concat (map (\<lambda>r. map (Pair r) (filter (\<lambda>s. s_id s = sr_shift_id r) (db_shifts d))) query)"

definition order_key :: "shift_roster \<times> shift \<Rightarrow> date \<times> nat" where
  "order_key rs = (sr_date (fst rs), s_start_time (snd rs))"

definition get_roster :: "db \<Rightarrow> int \<Rightarrow> roster_args \<Rightarrow> error + shift_roster list" where
  "get_roster d jwt args =
     (case get_current_user d jwt of
        None \<Rightarrow> Inl Internal_error
      | Some current_user \<Rightarrow>
          (case filter_start (ra_start_date args) (role_query d current_user) of
             Inl err \<Rightarrow> Inl err
           | Inr q1 \<Rightarrow>
               (case filter_end (ra_end_date args) q1 of
                  Inl err \<Rightarrow> Inl err
                | Inr q2 \<Rightarrow>
                    Inr (map fst (sort_key order_key (join_shift d (filter_rest args q2)))))))"

section \<open>Dashboard metrics (\<^verbatim>\<open>get_dashboard_metrics\<close>)\<close>






section \<open>Notions the properties are stated with\<close>

text \<open>The pair a roster row books: (employee, date).\<close>

definition roster_key :: "shift_roster \<Rightarrow> int \<times> date" where
  "roster_key r = (sr_employee_id r, sr_date r)"

definition no_double_booking :: "db \<Rightarrow> bool" where
  "no_double_booking d = distinct (map roster_key (db_roster d))"

text \<open>The rows booked for employee \<open>e\<close> on date \<open>dt\<close>.\<close>

definition bookings :: "db \<Rightarrow> int \<Rightarrow> date \<Rightarrow> shift_roster list" where
  "bookings d e dt = filter (\<lambda>r. sr_employee_id r = e \<and> sr_date r = dt) (db_roster d)"

text \<open>
  Steps 1 to 3 of the creation contract for one request: the principal exists and is
  Admin or Manager, the four required fields are present, the employee and the shift
  exist, and the date parses.
\<close>

definition principal_may_write :: "db \<Rightarrow> int \<Rightarrow> bool" where
  "principal_may_write d jwt =
     (case get_current_user d jwt of None \<Rightarrow> False | Some u \<Rightarrow> is_admin_or_manager u)"

definition references_exist :: "db \<Rightarrow> entry_data \<Rightarrow> bool" where
  "references_exist d data =
     ((case ed_employee_id data of None \<Rightarrow> False | Some e \<Rightarrow> user_get d e \<noteq> None) \<and>
      (case ed_shift_id data of None \<Rightarrow> False | Some s \<Rightarrow> shift_get d s \<noteq> None))"

definition date_parses :: "entry_data \<Rightarrow> bool" where
  "date_parses data = (case ed_date data of None \<Rightarrow> False | Some ds \<Rightarrow> strptime_ymd ds \<noteq> None)"

definition reaches_conflict_check :: "db \<Rightarrow> int \<Rightarrow> entry_data \<Rightarrow> bool" where
  "reaches_conflict_check d jwt data =
     (principal_may_write d jwt \<and> missing_fields data = [] \<and> references_exist d data \<and>
      date_parses data)"

text \<open>The (employee, date) pair a request asks for, when it names one.\<close>

definition requested_key :: "entry_data \<Rightarrow> (int \<times> date) option" where
  "requested_key data =
     (case (ed_employee_id data, ed_date data) of
        (Some e, Some ds) \<Rightarrow> map_option (Pair e) (strptime_ymd ds)
      | _ \<Rightarrow> None)"

text \<open>
  A sequence of \<^verbatim>\<open>create_roster_entry\<close> requests, each by its own principal, run
  one after the other.
\<close>

fun create_all :: "db \<Rightarrow> (int \<times> entry_data) list \<Rightarrow> db" where
  "create_all d [] = d"
| "create_all d (call # calls) =
     create_all (snd (create_roster_entry d (fst call) (snd call))) calls"

section \<open>The scenario of the specification (section 8)\<close>

text \<open>
  Ten employees (1 an Admin, 2 a Manager), two shift types, and employee 7 with an
  approved roster entry on 2024-03-01 (ordinal 738946) for shift 1 with 8 hours and an
  approved leave request for 2024-03-01 to 2024-03-03.
\<close>

definition employee_row :: "int \<Rightarrow> user" where
  "employee_row i =
     \<lparr>u_id = i,
      u_role_name = (if i = 1 then ''Admin'' else if i = 2 then ''Manager'' else ''Employee'')\<rparr>"

definition e7_entry :: shift_roster where
  "e7_entry =
     \<lparr>sr_id = 1, sr_employee_id = 7, sr_shift_id = 1, sr_date = 738946, sr_hours = 8,
      sr_status = ''approved'', sr_approved_by = Some 2, sr_approved_at = Some 1000,
      sr_notes = Some []\<rparr>"

definition e7_db :: db where
  "e7_db =
     \<lparr>db_users = map employee_row [1, 2, 3, 4, 5, 6, 7, 8, 9, 10],
      db_shifts = [\<lparr>s_id = 1, s_start_time = 480\<rparr>, \<lparr>s_id = 2, s_start_time = 960\<rparr>],
      db_roster = [e7_entry],
      db_timesheets = [],
      db_leave = [\<lparr>lr_id = 1, lr_employee_id = 7, lr_start_date = 738946, lr_end_date = 738948,
                   lr_status = ''approved''\<rparr>]\<rparr>"

text \<open>A creation request with the four required fields and nothing else.\<close>

definition request :: "int \<Rightarrow> int \<Rightarrow> string \<Rightarrow> real \<Rightarrow> entry_data" where
  "request e s ds h =
     \<lparr>ed_employee_id = Some e, ed_shift_id = Some s, ed_date = Some ds, ed_hours = Some h,
      ed_notes = None, ed_other = []\<rparr>"

text \<open>The approval state a creation is to leave: pending, no approver, no approval time.\<close>

definition unapproved :: "shift_roster \<Rightarrow> bool" where
  "unapproved r = (sr_status r = ''pending'' \<and> sr_approved_by r = None \<and> sr_approved_at r = None)"

text \<open>
  A creation request for employee 8 whose body also carries \<^verbatim>\<open>status\<close>,
  \<^verbatim>\<open>approved_by\<close> and \<^verbatim>\<open>approved_at\<close>.
\<close>

definition preapproved_request :: entry_data where
  "preapproved_request =
     (request 8 1 ''2024-03-01'' 8)
       \<lparr>ed_other := [(''status'', ''approved''), (''approved_by'', ''2''),
                     (''approved_at'', ''2024-03-01T00:00:00'')]\<rparr>"

text \<open>What an approve or reject action is to write on a row (specification, section 4.1).\<close>

definition decided :: "shift_roster \<Rightarrow> string \<Rightarrow> int \<Rightarrow> datetime \<Rightarrow> string option \<Rightarrow> shift_roster" where
  "decided r status who now notes =
     r\<lparr>sr_status := status, sr_approved_by := Some who, sr_approved_at := Some now,
       sr_notes := (case notes of None \<Rightarrow> sr_notes r | Some n \<Rightarrow> Some n)\<rparr>"

text \<open>The approval state of a row, and of the row with a given key in a database.\<close>

definition approval :: "shift_roster \<Rightarrow> string \<times> int option \<times> datetime option" where
  "approval r = (sr_status r, sr_approved_by r, sr_approved_at r)"

definition approval_of :: "db \<Rightarrow> int \<Rightarrow> (string \<times> int option \<times> datetime option) option" where
  "approval_of d i = map_option approval (roster_get d i)"

definition terminal :: "shift_roster \<Rightarrow> bool" where
  "terminal r = (sr_status r = ''approved'' \<or> sr_status r = ''rejected'')"

text \<open>
  The scenario's database with a second, pending row: employee 8 on 2024-03-02
  (ordinal 738947).
\<close>

definition pending_entry :: shift_roster where
  "pending_entry =
     \<lparr>sr_id = 2, sr_employee_id = 8, sr_shift_id = 2, sr_date = 738947, sr_hours = 4,
      sr_status = ''pending'', sr_approved_by = None, sr_approved_at = None,
      sr_notes = Some ''swap''\<rparr>"

definition two_db :: db where
  "two_db = e7_db\<lparr>db_roster := [e7_entry, pending_entry]\<rparr>"

text \<open>The scenario's database before any roster row exists.\<close>

definition empty_roster_db :: db where
  "empty_roster_db = e7_db\<lparr>db_roster := []\<rparr>"

text \<open>An update body that supplies nothing, and one that supplies only the date.\<close>

definition no_fields :: entry_data where
  "no_fields =
     \<lparr>ed_employee_id = None, ed_shift_id = None, ed_date = None, ed_hours = None,
      ed_notes = None, ed_other = []\<rparr>"

definition only_date :: "string \<Rightarrow> entry_data" where
  "only_date ds = no_fields\<lparr>ed_date := Some ds\<rparr>"

text \<open>
  From the empty roster table, the Manager books employee 7 on 2024-03-01 (row A) and
  on 2024-03-02 (row B).
\<close>

definition booked_a_and_b :: db where
  "booked_a_and_b =
     create_all empty_roster_db
       [(2, request 7 1 ''2024-03-01'' 8), (2, request 7 2 ''2024-03-02'' 8)]"

text \<open>
  Validation of one bulk entry as the specification words it (section 4.2, "the same
  four checks per entry"), against the (employee, date) pairs \<open>booked\<close> so far: the
  required fields are present, the employee and the shift exist, the date parses (the
  entry names a pair), and the pair is not booked.
\<close>

definition entry_valid :: "db \<Rightarrow> (int \<times> date) set \<Rightarrow> entry_data \<Rightarrow> bool" where
  "entry_valid d booked x =
     (missing_fields x = [] \<and> references_exist d x \<and>
      (case requested_key x of None \<Rightarrow> False | Some k \<Rightarrow> k \<notin> booked))"

text \<open>
  The positions, counted from \<open>k\<close>, of the entries of a batch that fail validation. The
  pairs booked when an entry is checked are those of the database and those of the
  valid entries before it in the batch.
\<close>

fun invalid_positions :: "db \<Rightarrow> (int \<times> date) set \<Rightarrow> nat \<Rightarrow> entry_data list \<Rightarrow> nat list" where
  "invalid_positions d booked k [] = []"
| "invalid_positions d booked k (x # xs) =
     (case requested_key x of
        None \<Rightarrow> k # invalid_positions d booked (k + 1) xs
      | Some key \<Rightarrow>
          if entry_valid d booked x then invalid_positions d (insert key booked) (k + 1) xs
          else k # invalid_positions d booked (k + 1) xs)"

text \<open>The pairs booked in a database.\<close>

definition booked_pairs :: "db \<Rightarrow> (int \<times> date) set" where
  "booked_pairs d = roster_key ` set (db_roster d)"

text \<open>
  The row persisted for an entry (specification, section 4.2, step 5): it carries the
  entry's employee, shift, date as parsed, hours and notes (empty when the entry has
  none), and it is pending with no approver.
\<close>

definition row_of_entry :: "entry_data \<Rightarrow> shift_roster \<Rightarrow> bool" where
  "row_of_entry x r =
     (ed_employee_id x = Some (sr_employee_id r) \<and> ed_shift_id x = Some (sr_shift_id r) \<and>
      (case ed_date x of None \<Rightarrow> False | Some ds \<Rightarrow> strptime_ymd ds = Some (sr_date r)) \<and>
      ed_hours x = Some (sr_hours r) \<and>
      sr_notes r = Some (case ed_notes x of None \<Rightarrow> [] | Some n \<Rightarrow> n) \<and>
      sr_status r = ''pending'' \<and> sr_approved_by r = None \<and> sr_approved_at r = None)"

text \<open>
  A batch of two entries that pass validation in the scenario's database, the second
  with notes.
\<close>

definition valid_batch :: "entry_data list" where
  "valid_batch =
     [request 8 1 ''2024-03-01'' 8, (request 9 2 ''2024-03-02'' 4)\<lparr>ed_notes := Some ''late''\<rparr>]"

text \<open>
  The batch of the specification's scenario: three entries, the second one for a shift
  that does not exist.
\<close>

definition scenario_batch :: "entry_data list" where
  "scenario_batch =
     [request 8 1 ''2024-03-01'' 8, request 9 99 ''2024-03-01'' 8, request 10 2 ''2024-03-01'' 8]"

text \<open>A batch whose first and third entries both book employee 8 on 2024-03-01.\<close>

definition duplicate_batch :: "entry_data list" where
  "duplicate_batch =
     [request 8 1 ''2024-03-01'' 8, request 9 1 ''2024-03-01'' 8, request 8 2 ''2024-3-1'' 4]"

text \<open>
  A batch whose first entry names a shift that does not exist and whose second entry
  asks for the same employee and date.
\<close>

definition unadded_batch :: "entry_data list" where
  "unadded_batch = [request 8 99 ''2024-03-01'' 8, request 8 1 ''2024-03-01'' 8]"




text \<open>
  The filters of a listing as the specification has them (section 6): each one optional,
  the range as dates. \<open>matches\<close> is "the entry matches the filters".
\<close>

definition matches ::
  "date option \<Rightarrow> date option \<Rightarrow> int option \<Rightarrow> int option \<Rightarrow> string option \<Rightarrow> shift_roster \<Rightarrow> bool" where
  "matches sd ed emp sh st r =
     ((case sd of None \<Rightarrow> True | Some a \<Rightarrow> a \<le> sr_date r) \<and>
      (case ed of None \<Rightarrow> True | Some b \<Rightarrow> sr_date r \<le> b) \<and>
      (case emp of None \<Rightarrow> True | Some e \<Rightarrow> sr_employee_id r = e) \<and>
      (case sh of None \<Rightarrow> True | Some s \<Rightarrow> sr_shift_id r = s) \<and>
      (case st of None \<Rightarrow> True | Some t \<Rightarrow> sr_status r = t))"

text \<open>
  What counts as supplied: an id of 0 and an empty string are read as no filter. A
  supplied date string gives a date, or \<open>None\<close> when it does not parse.
\<close>

definition supplied_id :: "int option \<Rightarrow> int option" where
  "supplied_id x = (if x = Some 0 then None else x)"

definition supplied_text :: "string option \<Rightarrow> string option" where
  "supplied_text x = (if x = Some [] then None else x)"

definition supplied_date :: "string option \<Rightarrow> date option option" where
  "supplied_date x =
     (case supplied_text x of
        None \<Rightarrow> Some None
      | Some s \<Rightarrow> map_option Some (strptime_ymd s))"

text \<open>The foreign key of the roster table into the shift table: every row has its one shift.\<close>

definition shifts_intact :: "db \<Rightarrow> bool" where
  "shifts_intact d =
     list_all (\<lambda>r. length (filter (\<lambda>s. s_id s = sr_shift_id r) (db_shifts d)) = 1) (db_roster d)"

text \<open>Query parameters: none, only an employee id, only a status.\<close>

definition no_args :: roster_args where
  "no_args =
     \<lparr>ra_start_date = None, ra_end_date = None, ra_employee_id = None, ra_shift_id = None,
      ra_status = None\<rparr>"

definition employee_args :: "int \<Rightarrow> roster_args" where
  "employee_args e = no_args\<lparr>ra_employee_id := Some e\<rparr>"

definition status_args :: "string \<Rightarrow> roster_args" where
  "status_args t = no_args\<lparr>ra_status := Some t\<rparr>"

section \<open>Helper lemmas\<close>

lemma distinct_key_filter_le1:
  "distinct (map f xs) \<Longrightarrow> length (filter (\<lambda>x. f x = k) xs) \<le> 1"
proof (induction xs)
  case Nil
  then show ?case by simp
next
  case (Cons x xs)
  show ?case
  proof (cases "f x = k")
    case True
    with Cons.prems have "k \<notin> f ` set xs" by auto
    then have "filter (\<lambda>x. f x = k) xs = []" by (auto simp: filter_empty_conv)
    with True show ?thesis by simp
  next
    case False
    with Cons show ?thesis by simp
  qed
qed

lemma bookings_le1: "no_double_booking d \<Longrightarrow> length (bookings d e dt) \<le> 1"
proof -
  assume "no_double_booking d"
  then have "length (filter (\<lambda>r. roster_key r = (e, dt)) (db_roster d)) \<le> 1"
    unfolding no_double_booking_def by (rule distinct_key_filter_le1)
  then show ?thesis by (simp add: bookings_def roster_key_def)
qed

lemma existing_entry_None_key:
  "existing_entry d e dt = None \<Longrightarrow> (e, dt) \<notin> roster_key ` set (db_roster d)"
  by (auto simp: existing_entry_def find_None_iff roster_key_def)

lemma roster_key_new: "roster_key (new_roster_entry d e s dt h n) = (e, dt)"
  by (simp add: roster_key_def new_roster_entry_def)

lemma create_cases:
  "create_roster_entry d jwt data = (res, d') \<Longrightarrow>
   (\<exists>err. res = Inl err \<and> d' = d) \<or>
   (\<exists>e s ds dt h. ed_employee_id data = Some e \<and> ed_shift_id data = Some s \<and> ed_date data = Some ds
      \<and> ed_hours data = Some h \<and> strptime_ymd ds = Some dt \<and> existing_entry d e dt = None
      \<and> user_get d e \<noteq> None \<and> shift_get d s \<noteq> None \<and> principal_may_write d jwt
      \<and> res = Inr (new_roster_entry d e s dt h (ed_notes data))
      \<and> d' = session_add d (new_roster_entry d e s dt h (ed_notes data)))"
  unfolding create_roster_entry_def principal_may_write_def
  by (auto split: option.splits if_splits list.splits simp: Let_def)

lemma create_preserves_ndb:
  assumes "no_double_booking d"
  shows "no_double_booking (snd (create_roster_entry d jwt data))"
proof -
  obtain res d' where eq: "create_roster_entry d jwt data = (res, d')" by (cases "create_roster_entry d jwt data")
  from create_cases[OF eq] show ?thesis
  proof
    assume "\<exists>err. res = Inl err \<and> d' = d"
    with eq assms show ?thesis by auto
  next
    assume "\<exists>e s ds dt h. ed_employee_id data = Some e \<and> ed_shift_id data = Some s \<and> ed_date data = Some ds
      \<and> ed_hours data = Some h \<and> strptime_ymd ds = Some dt \<and> existing_entry d e dt = None
      \<and> user_get d e \<noteq> None \<and> shift_get d s \<noteq> None \<and> principal_may_write d jwt
      \<and> res = Inr (new_roster_entry d e s dt h (ed_notes data))
      \<and> d' = session_add d (new_roster_entry d e s dt h (ed_notes data))"
    then obtain e s dt h where ex: "existing_entry d e dt = None"
      and d': "d' = session_add d (new_roster_entry d e s dt h (ed_notes data))" by blast
    from existing_entry_None_key[OF ex] assms show ?thesis
      by (simp add: eq d' session_add_def no_double_booking_def roster_key_new)
  qed
qed

lemma create_all_preserves_ndb:
  "no_double_booking d \<Longrightarrow> no_double_booking (create_all d calls)"
  by (induction calls arbitrary: d) (simp_all add: create_preserves_ndb)

lemma missing_fields_Nil:
  "missing_fields data = [] \<longleftrightarrow>
     ed_employee_id data \<noteq> None \<and> ed_shift_id data \<noteq> None \<and> ed_date data \<noteq> None \<and> ed_hours data \<noteq> None"
  by (simp add: missing_fields_def)

lemma create_existing_fails:
  assumes "requested_key data = Some (e, dt)" and "existing_entry d e dt \<noteq> None"
  shows "\<exists>err. create_roster_entry d jwt data = (Inl err, d)"
  using assms unfolding create_roster_entry_def requested_key_def
  by (auto split: option.splits if_splits list.splits simp: Let_def)

lemma create_existing_conflict:
  assumes "requested_key data = Some (e, dt)" and "existing_entry d e dt \<noteq> None"
    and "reaches_conflict_check d jwt data"
  shows "create_roster_entry d jwt data = (Inl Already_scheduled, d)"
proof -
  from assms(3) have mf: "missing_fields data = []" and pw: "principal_may_write d jwt"
    and re: "references_exist d data"
    by (simp_all add: reaches_conflict_check_def)
  from mf obtain e' s ds h where f: "ed_employee_id data = Some e'" "ed_shift_id data = Some s"
    "ed_date data = Some ds" "ed_hours data = Some h"
    by (auto simp: missing_fields_Nil)
  from assms(1) f have k: "e' = e" "strptime_ymd ds = Some dt"
    by (auto simp: requested_key_def)
  from pw obtain u where u: "get_current_user d jwt = Some u" "is_admin_or_manager u"
    by (auto simp: principal_may_write_def split: option.splits)
  from re f k obtain eu sh where r: "user_get d e = Some eu" "shift_get d s = Some sh"
    by (auto simp: references_exist_def)
  from assms(2) obtain x where x: "existing_entry d e dt = Some x" by auto
  show ?thesis
    by (simp add: create_roster_entry_def u mf f k r x)
qed


lemmas parse_defs = strptime_ymd_def digit_val_def month_two_def day_two_def one_to_nine_def
  mk_date_def days_in_month_def is_leap_def ymd2ord_def days_before_year_def days_before_month_def

lemma date_2024_03_01: "strptime_ymd ''2024-03-01'' = Some 738946"
  by (simp add: parse_defs)

lemma date_2024_03_02: "strptime_ymd ''2024-03-02'' = Some 738947"
  by (simp add: parse_defs)

lemmas handler_defs = create_roster_entry_def get_current_user_def user_get_def shift_get_def
  roster_get_def is_admin_or_manager_def missing_fields_def existing_entry_def
  new_roster_entry_def session_add_def next_roster_id_def Let_def

lemmas scenario_defs = e7_db_def e7_entry_def employee_row_def request_def

text \<open>
  Claim C1 (no double-booking on creation). From a database in which no (employee, date)
  pair is booked twice, any sequence of \<^verbatim>\<open>create_roster_entry\<close> requests leaves at
  most one roster row for every employee \<open>e\<close> and date \<open>dt\<close>. In any database \<open>s\<close>, a
  request naming a pair that already has a row returns an error and leaves \<open>s\<close> as it
  was; when the request passes the checks that come before the conflict check
  (principal, required fields, employee, shift, date), the error is the one of kind
  \<open>Conflict\<close>.
\<close>

theorem create_no_double_booking:
  "no_double_booking d \<Longrightarrow>
     length (bookings (create_all d calls) e dt) \<le> 1 \<and>
     (requested_key data = Some (e2, dt2) \<and> existing_entry s e2 dt2 \<noteq> None \<longrightarrow>
        (\<exists>err. create_roster_entry s jwt data = (Inl err, s)) \<and>
        (reaches_conflict_check s jwt data \<longrightarrow>
           (\<exists>err. create_roster_entry s jwt data = (Inl err, s) \<and> kind_of err = Conflict)))"
proof -
  assume ndb: "no_double_booking d"
  have "length (bookings (create_all d calls) e dt) \<le> 1"
    by (rule bookings_le1) (rule create_all_preserves_ndb[OF ndb])
  moreover have "\<exists>err. create_roster_entry s jwt data = (Inl err, s)"
    if "requested_key data = Some (e2, dt2)" "existing_entry s e2 dt2 \<noteq> None"
    using that by (rule create_existing_fails)
  moreover have "\<exists>err. create_roster_entry s jwt data = (Inl err, s) \<and> kind_of err = Conflict"
    if "requested_key data = Some (e2, dt2)" "existing_entry s e2 dt2 \<noteq> None"
      "reaches_conflict_check s jwt data"
    using create_existing_conflict[OF that] by simp
  ultimately show ?thesis by blast
qed

text \<open>
  The scenario of the specification: employee 7 is booked on 2024-03-01, and the
  Manager's request to book employee 7 on that date for shift 2 fails with the conflict.
\<close>

theorem create_no_double_booking_witness:
  "no_double_booking e7_db \<and>
   length (bookings (create_all e7_db [(2, request 7 1 ''2024-03-02'' 8)]) 7 738947) = 1 \<and>
   requested_key (request 7 2 ''2024-03-01'' 8) = Some (7, 738946) \<and>
   existing_entry e7_db 7 738946 = Some e7_entry \<and>
   reaches_conflict_check e7_db 2 (request 7 2 ''2024-03-01'' 8) \<and>
   create_roster_entry e7_db 2 (request 7 2 ''2024-03-01'' 8) = (Inl Already_scheduled, e7_db)"
proof -
  have h1: "no_double_booking e7_db"
    by (simp add: no_double_booking_def scenario_defs roster_key_def)
  have h2: "requested_key (request 7 2 ''2024-03-01'' 8) = Some (7, 738946)"
    by (simp add: requested_key_def request_def date_2024_03_01)
  have h3: "existing_entry e7_db 7 738946 = Some e7_entry"
    by (simp add: existing_entry_def scenario_defs)
  have h4: "reaches_conflict_check e7_db 2 (request 7 2 ''2024-03-01'' 8)"
    by (simp add: reaches_conflict_check_def principal_may_write_def references_exist_def
        date_parses_def handler_defs scenario_defs date_2024_03_01)
  have h5: "length (bookings (create_all e7_db [(2, request 7 1 ''2024-03-02'' 8)]) 7 738947) = 1"
    by (simp add: bookings_def handler_defs scenario_defs date_2024_03_02)
  have h6: "create_roster_entry e7_db 2 (request 7 2 ''2024-03-01'' 8) = (Inl Already_scheduled, e7_db)"
    using create_no_double_booking[OF h1, of "[]" 7 738946 "request 7 2 ''2024-03-01'' 8" 7 738946 e7_db 2]
      h2 h3 h4
    by (auto simp: handler_defs scenario_defs date_2024_03_01)
  from h1 h2 h3 h4 h5 h6 show ?thesis by simp
qed

subsection \<open>Creation and bulk creation\<close>

lemma unapproved_new: "unapproved (new_roster_entry d e s dt h n)"
  by (simp add: unapproved_def new_roster_entry_def)

lemma bulk_step_Some:
  "bulk_step d i x = (errs, Some r) \<Longrightarrow>
     errs = [] \<and> (\<exists>e s ds dt h. ed_employee_id x = Some e \<and> ed_shift_id x = Some s \<and>
        ed_date x = Some ds \<and> ed_hours x = Some h \<and> strptime_ymd ds = Some dt \<and>
        user_get d e \<noteq> None \<and> shift_get d s \<noteq> None \<and> existing_entry d e dt = None \<and>
        r = new_roster_entry d e s dt h (ed_notes x))"
  unfolding bulk_step_def Let_def
  by (auto split: option.splits simp: missing_fields_def)

lemma bulk_step_None:
  "bulk_step d i x = (errs, None) \<Longrightarrow> errs \<noteq> [] \<and> (\<forall>b \<in> set errs. position b = i + 1)"
  unfolding bulk_step_def Let_def
  by (auto split: option.splits)

lemma bulk_step_other: "bulk_step d i (x\<lparr>ed_other := other\<rparr>) = bulk_step d i x"
  by (simp add: bulk_step_def missing_fields_def Let_def cong: option.case_cong)

lemma bulk_loop_appends:
  "bulk_loop d i xs created errors = (d', created', errors') \<Longrightarrow>
     \<exists>new. created' = created @ new \<and> d' = d\<lparr>db_roster := db_roster d @ new\<rparr> \<and>
           (\<forall>r \<in> set new. unapproved r)"
proof (induction xs arbitrary: d i created errors)
  case Nil
  then show ?case by simp
next
  case (Cons x xs)
  obtain errs ro where st: "bulk_step d i x = (errs, ro)" by (cases "bulk_step d i x")
  show ?case
  proof (cases ro)
    case None
    with Cons.prems st have "bulk_loop d (i + 1) xs created (errors @ errs) = (d', created', errors')"
      by simp
    from Cons.IH[OF this] show ?thesis .
  next
    case (Some r)
    with Cons.prems st
    have "bulk_loop (session_add d r) (i + 1) xs (created @ [r]) (errors @ errs) = (d', created', errors')"
      by simp
    from Cons.IH[OF this] obtain new where
      n: "created' = (created @ [r]) @ new"
         "d' = (session_add d r)\<lparr>db_roster := db_roster (session_add d r) @ new\<rparr>"
         "\<forall>r \<in> set new. unapproved r" by blast
    from bulk_step_Some[OF st[unfolded Some]] have "unapproved r" by (auto simp: unapproved_new)
    with n have "created' = created @ (r # new) \<and> d' = d\<lparr>db_roster := db_roster d @ (r # new)\<rparr> \<and>
           (\<forall>r \<in> set (r # new). unapproved r)"
      by (simp add: session_add_def)
    then show ?thesis by blast
  qed
qed

lemma bulk_loop_other:
  "bulk_loop d i (map (\<lambda>x. x\<lparr>ed_other := f x\<rparr>) xs) created errors = bulk_loop d i xs created errors"
  by (induction xs arbitrary: d i created errors) (simp_all add: bulk_step_other)

lemma create_other: "create_roster_entry d jwt (data\<lparr>ed_other := other\<rparr>) = create_roster_entry d jwt data"
  by (simp add: create_roster_entry_def missing_fields_def Let_def cong: option.case_cong list.case_cong if_cong)

lemma create_bulk_other:
  "create_bulk_roster d jwt (map (\<lambda>x. x\<lparr>ed_other := f x\<rparr>) xs) = create_bulk_roster d jwt xs"
  by (simp add: create_bulk_roster_def bulk_loop_other cong: option.case_cong if_cong)

lemma create_bulk_success:
  assumes "create_bulk_roster d jwt entries = (Inr rs, d')"
  shows "d' = d\<lparr>db_roster := db_roster d @ rs\<rparr> \<and> (\<forall>r \<in> set rs. unapproved r)"
proof -
  obtain s c e where l: "bulk_loop d 0 entries [] [] = (s, c, e)" by (cases "bulk_loop d 0 entries [] []")
  from assms l have "rs = c" "d' = s"
    by (auto simp: create_bulk_roster_def split: option.splits if_splits)
  with bulk_loop_appends[OF l] show ?thesis by auto
qed

text \<open>
  Claim C10 (creation never persists caller-controlled approval state). A row returned
  by a successful \<^verbatim>\<open>create_roster_entry\<close> or \<^verbatim>\<open>create_bulk_roster\<close> is
  exactly what the request appends to the roster table, and it is pending with no
  approver and no approval time. Whatever other keys the request body carries
  (\<open>ed_other\<close>: \<^verbatim>\<open>status\<close>, \<^verbatim>\<open>approved_by\<close>, \<^verbatim>\<open>approved_at\<close>, ...), the
  handlers answer and store as they do without them.
\<close>

theorem creation_never_approved:
  "(create_roster_entry d jwt data = (Inr r, d') \<longrightarrow>
      unapproved r \<and> db_roster d' = db_roster d @ [r]) \<and>
   (create_bulk_roster d jwt entries = (Inr rs, d'') \<longrightarrow>
      db_roster d'' = db_roster d @ rs \<and> (\<forall>r \<in> set rs. unapproved r)) \<and>
   create_roster_entry d jwt (data\<lparr>ed_other := other\<rparr>) = create_roster_entry d jwt data \<and>
   create_bulk_roster d jwt (map (\<lambda>x. x\<lparr>ed_other := f x\<rparr>) entries) = create_bulk_roster d jwt entries"
proof -
  have "unapproved r \<and> db_roster d' = db_roster d @ [r]"
    if "create_roster_entry d jwt data = (Inr r, d')"
    using create_cases[OF that] by (auto simp: unapproved_new session_add_def)
  moreover have "db_roster d'' = db_roster d @ rs \<and> (\<forall>r \<in> set rs. unapproved r)"
    if "create_bulk_roster d jwt entries = (Inr rs, d'')"
    using create_bulk_success[OF that] by simp
  ultimately show ?thesis
    by (simp add: create_other create_bulk_other)
qed

lemmas bulk_defs = create_bulk_roster_def bulk_step_def

text \<open>
  A request for employee 8 that carries \<^verbatim>\<open>status = approved\<close> is answered like the
  plain request, with a pending row.
\<close>

theorem creation_never_approved_witness:
  "create_roster_entry e7_db 2 preapproved_request =
     (Inr (new_roster_entry e7_db 8 1 738946 8 None),
      session_add e7_db (new_roster_entry e7_db 8 1 738946 8 None)) \<and>
   unapproved (new_roster_entry e7_db 8 1 738946 8 None) \<and>
   create_roster_entry e7_db 2 preapproved_request =
     create_roster_entry e7_db 2 (request 8 1 ''2024-03-01'' 8)"
proof -
  have h: "create_roster_entry e7_db 2 preapproved_request =
     (Inr (new_roster_entry e7_db 8 1 738946 8 None),
      session_add e7_db (new_roster_entry e7_db 8 1 738946 8 None))"
    by (simp add: preapproved_request_def handler_defs scenario_defs date_2024_03_01)
  have p: "preapproved_request = (request 8 1 ''2024-03-01'' 8)\<lparr>ed_other := ed_other preapproved_request\<rparr>"
    by (simp add: preapproved_request_def)
  from creation_never_approved[of e7_db 2 "request 8 1 ''2024-03-01'' 8" _ _ "[]" "[]" e7_db
      "ed_other preapproved_request"]
  have "create_roster_entry e7_db 2 preapproved_request =
     create_roster_entry e7_db 2 (request 8 1 ''2024-03-01'' 8)"
    using p by simp
  moreover from creation_never_approved[of e7_db 2 preapproved_request
      "new_roster_entry e7_db 8 1 738946 8 None"
      "session_add e7_db (new_roster_entry e7_db 8 1 738946 8 None)"] h
  have "unapproved (new_roster_entry e7_db 8 1 738946 8 None)" by simp
  ultimately show ?thesis using h by simp
qed

subsection \<open>Rows by primary key\<close>

lemma roster_get_id: "roster_get d i = Some r \<Longrightarrow> sr_id r = i"
  by (auto simp: roster_get_def find_Some_iff)

lemma user_get_id: "user_get d i = Some u \<Longrightarrow> u_id u = i"
  by (auto simp: user_get_def find_Some_iff)

lemma find_replace:
  assumes "sr_id r' = i"
  shows "find (\<lambda>r. sr_id r = j) (map (\<lambda>r. if sr_id r = i then r' else r) xs) =
         map_option (\<lambda>r. if sr_id r = i then r' else r) (find (\<lambda>r. sr_id r = j) xs)"
  using assms by (induction xs) auto

lemma roster_get_store:
  assumes "sr_id r' = i"
  shows "roster_get (roster_store d i r') j =
         (if j = i then map_option (\<lambda>r. r') (roster_get d i) else roster_get d j)"
proof (cases "j = i")
  case True
  have "map_option (\<lambda>r. if sr_id r = i then r' else r) (roster_get d i) = map_option (\<lambda>r. r') (roster_get d i)"
    by (cases "roster_get d i") (auto dest: roster_get_id)
  with True show ?thesis
    by (simp add: roster_get_def roster_store_def find_replace[OF assms])
next
  case False
  have "map_option (\<lambda>r. if sr_id r = i then r' else r) (roster_get d j) = roster_get d j"
    using False by (cases "roster_get d j") (auto dest: roster_get_id)
  with False show ?thesis
    by (simp add: roster_get_def roster_store_def find_replace[OF assms])
qed

lemma find_filter_weaker:
  "(\<And>x. P x \<Longrightarrow> Q x) \<Longrightarrow> find P (filter Q xs) = find P xs"
  by (induction xs) auto

lemma find_append_Some: "find P xs = Some x \<Longrightarrow> find P (xs @ ys) = Some x"
  by (induction xs) (auto split: if_splits)

lemma principal_may_writeD:
  "principal_may_write d jwt \<Longrightarrow> \<exists>u. get_current_user d jwt = Some u \<and> is_admin_or_manager u \<and> u_id u = jwt"
  by (auto simp: principal_may_write_def get_current_user_def split: option.splits dest: user_get_id)

subsection \<open>Approval\<close>

lemma approve_ok:
  assumes pw: "principal_may_write d jwt" and g: "roster_get d i = Some r"
    and a: "ad_action data = Some ''approve'' \<or> ad_action data = Some ''reject''"
  shows "approve_roster_entry d jwt i data now =
           (let r' = decided r (if ad_action data = Some ''approve'' then ''approved'' else ''rejected'')
                       jwt now (ad_notes data)
            in (Inr r', roster_store d i r'))"
proof -
  from principal_may_writeD[OF pw] obtain u where
    u: "get_current_user d jwt = Some u" "is_admin_or_manager u" "u_id u = jwt" by blast
  from a show ?thesis
    by (auto simp: approve_roster_entry_def u g decided_def Let_def)
qed

lemma approve_invalid:
  assumes pw: "principal_may_write d jwt" and g: "roster_get d i = Some r"
    and a: "ad_action data \<noteq> Some ''approve''" "ad_action data \<noteq> Some ''reject''"
  shows "approve_roster_entry d jwt i data now = (Inl Invalid_action, d)"
proof -
  from principal_may_writeD[OF pw] obtain u where
    u: "get_current_user d jwt = Some u" "is_admin_or_manager u" "u_id u = jwt" by blast
  from a show ?thesis
    by (simp add: approve_roster_entry_def u g Let_def)
qed

lemma sr_id_decided: "sr_id (decided r st who now n) = sr_id r"
  by (simp add: decided_def)

text \<open>
  Claim C4 (approve/reject contract). For a Manager or Admin principal and an existing
  roster entry \<open>r\<close> with key \<open>i\<close>: action \<^verbatim>\<open>approve\<close> (\<^verbatim>\<open>reject\<close>) answers with, and
  stores under \<open>i\<close>, the row \<open>r\<close> with status \<^verbatim>\<open>approved\<close> (\<^verbatim>\<open>rejected\<close>), approver
  the principal's id, approval time \<open>now\<close>, and the notes replaced exactly when the body
  supplies notes; every other row stays as it was. Any other action, or none, fails
  with the error of kind \<open>InvalidInput\<close> and leaves the database unchanged.
\<close>

theorem approve_contract:
  "principal_may_write d jwt \<and> roster_get d i = Some r \<longrightarrow>
     (ad_action data = Some ''approve'' \<longrightarrow>
        approve_roster_entry d jwt i data now =
          (Inr (decided r ''approved'' jwt now (ad_notes data)),
           roster_store d i (decided r ''approved'' jwt now (ad_notes data))) \<and>
        roster_get (roster_store d i (decided r ''approved'' jwt now (ad_notes data))) i =
          Some (decided r ''approved'' jwt now (ad_notes data))) \<and>
     (ad_action data = Some ''reject'' \<longrightarrow>
        approve_roster_entry d jwt i data now =
          (Inr (decided r ''rejected'' jwt now (ad_notes data)),
           roster_store d i (decided r ''rejected'' jwt now (ad_notes data))) \<and>
        roster_get (roster_store d i (decided r ''rejected'' jwt now (ad_notes data))) i =
          Some (decided r ''rejected'' jwt now (ad_notes data))) \<and>
     (j \<noteq> i \<longrightarrow> roster_get (snd (approve_roster_entry d jwt i data now)) j = roster_get d j) \<and>
     (ad_action data \<noteq> Some ''approve'' \<and> ad_action data \<noteq> Some ''reject'' \<longrightarrow>
        approve_roster_entry d jwt i data now = (Inl Invalid_action, d) \<and>
        kind_of Invalid_action = InvalidInput) \<and>
     sr_notes (decided r ''approved'' jwt now (ad_notes data)) =
        (case ad_notes data of None \<Rightarrow> sr_notes r | Some n \<Rightarrow> Some n)"
proof (intro impI, elim conjE)
  assume pw: "principal_may_write d jwt" and g: "roster_get d i = Some r"
  have id: "sr_id r = i" by (rule roster_get_id[OF g])
  have st: "roster_get (roster_store d i (decided r s jwt now n)) i = Some (decided r s jwt now n)" for s n
    by (simp add: roster_get_store sr_id_decided id g)
  have ap: "approve_roster_entry d jwt i data now =
          (Inr (decided r ''approved'' jwt now (ad_notes data)),
           roster_store d i (decided r ''approved'' jwt now (ad_notes data)))"
    if "ad_action data = Some ''approve''"
    using approve_ok[OF pw g, of data now] that by (simp add: Let_def)
  have rj: "approve_roster_entry d jwt i data now =
          (Inr (decided r ''rejected'' jwt now (ad_notes data)),
           roster_store d i (decided r ''rejected'' jwt now (ad_notes data)))"
    if "ad_action data = Some ''reject''"
    using approve_ok[OF pw g, of data now] that by (simp add: Let_def)
  have inv: "approve_roster_entry d jwt i data now = (Inl Invalid_action, d)"
    if "ad_action data \<noteq> Some ''approve''" "ad_action data \<noteq> Some ''reject''"
    using approve_invalid[OF pw g that] .
  have other: "roster_get (snd (approve_roster_entry d jwt i data now)) j = roster_get d j" if "j \<noteq> i"
  proof (cases "ad_action data = Some ''approve'' \<or> ad_action data = Some ''reject''")
    case True
    then show ?thesis using ap rj that
      by (auto simp: roster_get_store sr_id_decided id)
  next
    case False
    then show ?thesis using inv by simp
  qed
  show "(ad_action data = Some ''approve'' \<longrightarrow>
        approve_roster_entry d jwt i data now =
          (Inr (decided r ''approved'' jwt now (ad_notes data)),
           roster_store d i (decided r ''approved'' jwt now (ad_notes data))) \<and>
        roster_get (roster_store d i (decided r ''approved'' jwt now (ad_notes data))) i =
          Some (decided r ''approved'' jwt now (ad_notes data))) \<and>
     (ad_action data = Some ''reject'' \<longrightarrow>
        approve_roster_entry d jwt i data now =
          (Inr (decided r ''rejected'' jwt now (ad_notes data)),
           roster_store d i (decided r ''rejected'' jwt now (ad_notes data))) \<and>
        roster_get (roster_store d i (decided r ''rejected'' jwt now (ad_notes data))) i =
          Some (decided r ''rejected'' jwt now (ad_notes data))) \<and>
     (j \<noteq> i \<longrightarrow> roster_get (snd (approve_roster_entry d jwt i data now)) j = roster_get d j) \<and>
     (ad_action data \<noteq> Some ''approve'' \<and> ad_action data \<noteq> Some ''reject'' \<longrightarrow>
        approve_roster_entry d jwt i data now = (Inl Invalid_action, d) \<and>
        kind_of Invalid_action = InvalidInput) \<and>
     sr_notes (decided r ''approved'' jwt now (ad_notes data)) =
        (case ad_notes data of None \<Rightarrow> sr_notes r | Some n \<Rightarrow> Some n)"
    using st ap rj inv other by (simp add: decided_def)
qed

lemmas store_defs = roster_store_def decided_def

lemmas two_defs = two_db_def pending_entry_def scenario_defs

text \<open>
  The Manager approves the pending row of employee 8 with notes, and the row is stored
  approved by principal 2 at the clock's time; the action \<^verbatim>\<open>cancel\<close> is refused.
\<close>

theorem approve_contract_witness:
  "principal_may_write two_db 2 \<and> roster_get two_db 2 = Some pending_entry \<and>
   approve_roster_entry two_db 2 2 \<lparr>ad_action = Some ''approve'', ad_notes = Some ''ok''\<rparr> 2000 =
     (Inr (pending_entry\<lparr>sr_status := ''approved'', sr_approved_by := Some 2,
                         sr_approved_at := Some 2000, sr_notes := Some ''ok''\<rparr>),
      two_db\<lparr>db_roster := [e7_entry,
                pending_entry\<lparr>sr_status := ''approved'', sr_approved_by := Some 2,
                              sr_approved_at := Some 2000, sr_notes := Some ''ok''\<rparr>]\<rparr>) \<and>
   approve_roster_entry two_db 2 2 \<lparr>ad_action = Some ''cancel'', ad_notes = None\<rparr> 2000 =
     (Inl Invalid_action, two_db)"
proof -
  have pw: "principal_may_write two_db 2"
    by (simp add: principal_may_write_def handler_defs two_defs)
  have g: "roster_get two_db 2 = Some pending_entry"
    by (simp add: roster_get_def two_defs)
  from approve_contract[of two_db 2 2 pending_entry
      "\<lparr>ad_action = Some ''approve'', ad_notes = Some ''ok''\<rparr>" 2000 1] pw g
  have a: "approve_roster_entry two_db 2 2 \<lparr>ad_action = Some ''approve'', ad_notes = Some ''ok''\<rparr> 2000 =
     (Inr (decided pending_entry ''approved'' 2 2000 (Some ''ok'')),
      roster_store two_db 2 (decided pending_entry ''approved'' 2 2000 (Some ''ok'')))"
    by simp
  from approve_contract[of two_db 2 2 pending_entry
      "\<lparr>ad_action = Some ''cancel'', ad_notes = None\<rparr>" 2000 1] pw g
  have b: "approve_roster_entry two_db 2 2 \<lparr>ad_action = Some ''cancel'', ad_notes = None\<rparr> 2000 =
     (Inl Invalid_action, two_db)"
    by simp
  have c: "roster_store two_db 2 (decided pending_entry ''approved'' 2 2000 (Some ''ok'')) =
      two_db\<lparr>db_roster := [e7_entry,
                pending_entry\<lparr>sr_status := ''approved'', sr_approved_by := Some 2,
                              sr_approved_at := Some 2000, sr_notes := Some ''ok''\<rparr>]\<rparr>"
    by (simp add: store_defs two_defs)
  have d: "decided pending_entry ''approved'' 2 2000 (Some ''ok'') =
      pending_entry\<lparr>sr_status := ''approved'', sr_approved_by := Some 2,
                              sr_approved_at := Some 2000, sr_notes := Some ''ok''\<rparr>"
    by (simp add: decided_def)
  from pw g a b c d show ?thesis by simp
qed

subsection \<open>Update\<close>

lemma update_employee_frame:
  "update_employee d data r = Inr r1 \<Longrightarrow>
     r1 = r\<lparr>sr_employee_id := (case ed_employee_id data of None \<Rightarrow> sr_employee_id r | Some e \<Rightarrow> e)\<rparr>"
  by (auto simp: update_employee_def split: option.splits)

lemma update_shift_frame:
  "update_shift d data r = Inr r1 \<Longrightarrow>
     r1 = r\<lparr>sr_shift_id := (case ed_shift_id data of None \<Rightarrow> sr_shift_id r | Some s \<Rightarrow> s)\<rparr>"
  by (auto simp: update_shift_def split: option.splits)

lemma update_date_frame:
  "update_date data r = Inr r1 \<Longrightarrow>
     (\<exists>dt. (case ed_date data of None \<Rightarrow> Some (sr_date r) | Some ds \<Rightarrow> strptime_ymd ds) = Some dt \<and>
           r1 = r\<lparr>sr_date := dt\<rparr>)"
  by (auto simp: update_date_def split: option.splits)

lemma update_hours_frame:
  "update_hours data r = r\<lparr>sr_hours := (case ed_hours data of None \<Rightarrow> sr_hours r | Some h \<Rightarrow> h)\<rparr>"
  by (simp add: update_hours_def split: option.splits)

lemma update_notes_frame:
  "update_notes data r = r\<lparr>sr_notes := (case ed_notes data of None \<Rightarrow> sr_notes r | Some n \<Rightarrow> Some n)\<rparr>"
  by (simp add: update_notes_def split: option.splits)

lemma update_cases:
  "(\<exists>err. update_roster_entry d jwt i data = (Inl err, d)) \<or>
   (\<exists>r r1 r2 r3. roster_get d i = Some r \<and> update_employee d data r = Inr r1 \<and>
      update_shift d data r1 = Inr r2 \<and> update_date data r2 = Inr r3 \<and>
      update_roster_entry d jwt i data =
        (Inr (update_notes data (update_hours data r3)),
         roster_store d i (update_notes data (update_hours data r3))))"
  unfolding update_roster_entry_def Let_def
  by (auto split: option.splits sum.splits)

lemma update_success:
  assumes "update_roster_entry d jwt i data = (Inr r', d')"
  shows "\<exists>r dt. roster_get d i = Some r \<and>
     (case ed_date data of None \<Rightarrow> Some (sr_date r) | Some ds \<Rightarrow> strptime_ymd ds) = Some dt \<and>
     r' = r\<lparr>sr_employee_id := (case ed_employee_id data of None \<Rightarrow> sr_employee_id r | Some e \<Rightarrow> e),
            sr_shift_id := (case ed_shift_id data of None \<Rightarrow> sr_shift_id r | Some s \<Rightarrow> s),
            sr_date := dt,
            sr_hours := (case ed_hours data of None \<Rightarrow> sr_hours r | Some h \<Rightarrow> h),
            sr_notes := (case ed_notes data of None \<Rightarrow> sr_notes r | Some n \<Rightarrow> Some n)\<rparr> \<and>
     d' = roster_store d i r'"
proof -
  from update_cases[of d jwt i data] assms
  obtain r r1 r2 r3 where g: "roster_get d i = Some r" and e: "update_employee d data r = Inr r1"
    and s: "update_shift d data r1 = Inr r2" and dd: "update_date data r2 = Inr r3"
    and u: "update_roster_entry d jwt i data =
        (Inr (update_notes data (update_hours data r3)),
         roster_store d i (update_notes data (update_hours data r3)))"
    by auto
  from update_date_frame[OF dd] obtain dt where
    dt: "(case ed_date data of None \<Rightarrow> Some (sr_date r2) | Some ds \<Rightarrow> strptime_ymd ds) = Some dt"
    and r3: "r3 = r2\<lparr>sr_date := dt\<rparr>" by blast
  note r1 = update_employee_frame[OF e] and r2 = update_shift_frame[OF s]
  have "sr_date r2 = sr_date r" by (simp add: r1 r2)
  with dt have dt': "(case ed_date data of None \<Rightarrow> Some (sr_date r) | Some ds \<Rightarrow> strptime_ymd ds) = Some dt"
    by (cases "ed_date data") simp_all
  from u assms have r': "r' = update_notes data (update_hours data r3)" and d': "d' = roster_store d i r'"
    by simp_all
  have "r' = r\<lparr>sr_employee_id := (case ed_employee_id data of None \<Rightarrow> sr_employee_id r | Some e \<Rightarrow> e),
            sr_shift_id := (case ed_shift_id data of None \<Rightarrow> sr_shift_id r | Some s \<Rightarrow> s),
            sr_date := dt,
            sr_hours := (case ed_hours data of None \<Rightarrow> sr_hours r | Some h \<Rightarrow> h),
            sr_notes := (case ed_notes data of None \<Rightarrow> sr_notes r | Some n \<Rightarrow> Some n)\<rparr>"
    unfolding r' update_notes_frame update_hours_frame r3 r2 r1 by (simp split: option.splits)
  with g dt' d' show ?thesis by blast
qed

text \<open>
  Claim C8 (update frame). After a successful \<^verbatim>\<open>update_roster_entry\<close> on the row \<open>r\<close>
  with key \<open>i\<close>, the stored and returned row \<open>r'\<close> has, for each of employee id, shift
  id, date, hours and notes, the supplied value when the body supplies one (the date as
  parsed) and the value of \<open>r\<close> otherwise; its key, status, approver and approval time
  are those of \<open>r\<close>, whatever the body contains; every other roster row and every other
  table is unchanged.
\<close>

theorem update_frame:
  "update_roster_entry d jwt i data = (Inr r', d') \<longrightarrow>
     (\<exists>r. roster_get d i = Some r \<and>
        sr_employee_id r' = (case ed_employee_id data of None \<Rightarrow> sr_employee_id r | Some e \<Rightarrow> e) \<and>
        sr_shift_id r' = (case ed_shift_id data of None \<Rightarrow> sr_shift_id r | Some s \<Rightarrow> s) \<and>
        Some (sr_date r') = (case ed_date data of None \<Rightarrow> Some (sr_date r) | Some ds \<Rightarrow> strptime_ymd ds) \<and>
        sr_hours r' = (case ed_hours data of None \<Rightarrow> sr_hours r | Some h \<Rightarrow> h) \<and>
        sr_notes r' = (case ed_notes data of None \<Rightarrow> sr_notes r | Some n \<Rightarrow> Some n) \<and>
        sr_id r' = sr_id r \<and> sr_status r' = sr_status r \<and>
        sr_approved_by r' = sr_approved_by r \<and> sr_approved_at r' = sr_approved_at r \<and>
        roster_get d' i = Some r' \<and>
        (\<forall>j. j \<noteq> i \<longrightarrow> roster_get d' j = roster_get d j) \<and>
        db_users d' = db_users d \<and> db_shifts d' = db_shifts d \<and>
        db_timesheets d' = db_timesheets d \<and> db_leave d' = db_leave d)"
proof
  assume a: "update_roster_entry d jwt i data = (Inr r', d')"
  from update_success[OF a] obtain r dt where g: "roster_get d i = Some r"
    and dt: "(case ed_date data of None \<Rightarrow> Some (sr_date r) | Some ds \<Rightarrow> strptime_ymd ds) = Some dt"
    and r': "r' = r\<lparr>sr_employee_id := (case ed_employee_id data of None \<Rightarrow> sr_employee_id r | Some e \<Rightarrow> e),
            sr_shift_id := (case ed_shift_id data of None \<Rightarrow> sr_shift_id r | Some s \<Rightarrow> s),
            sr_date := dt,
            sr_hours := (case ed_hours data of None \<Rightarrow> sr_hours r | Some h \<Rightarrow> h),
            sr_notes := (case ed_notes data of None \<Rightarrow> sr_notes r | Some n \<Rightarrow> Some n)\<rparr>"
    and d': "d' = roster_store d i r'" by blast
  have id: "sr_id r' = i" using roster_get_id[OF g] by (simp add: r')
  have "roster_get d' i = Some r'" "\<forall>j. j \<noteq> i \<longrightarrow> roster_get d' j = roster_get d j"
    by (simp_all add: d' roster_get_store[OF id] g)
  moreover have "db_users d' = db_users d \<and> db_shifts d' = db_shifts d \<and>
        db_timesheets d' = db_timesheets d \<and> db_leave d' = db_leave d"
    by (simp add: d' roster_store_def)
  moreover have "Some (sr_date r') = (case ed_date data of None \<Rightarrow> Some (sr_date r) | Some ds \<Rightarrow> strptime_ymd ds)"
    by (simp add: dt r')
  ultimately show "\<exists>r. roster_get d i = Some r \<and>
        sr_employee_id r' = (case ed_employee_id data of None \<Rightarrow> sr_employee_id r | Some e \<Rightarrow> e) \<and>
        sr_shift_id r' = (case ed_shift_id data of None \<Rightarrow> sr_shift_id r | Some s \<Rightarrow> s) \<and>
        Some (sr_date r') = (case ed_date data of None \<Rightarrow> Some (sr_date r) | Some ds \<Rightarrow> strptime_ymd ds) \<and>
        sr_hours r' = (case ed_hours data of None \<Rightarrow> sr_hours r | Some h \<Rightarrow> h) \<and>
        sr_notes r' = (case ed_notes data of None \<Rightarrow> sr_notes r | Some n \<Rightarrow> Some n) \<and>
        sr_id r' = sr_id r \<and> sr_status r' = sr_status r \<and>
        sr_approved_by r' = sr_approved_by r \<and> sr_approved_at r' = sr_approved_at r \<and>
        roster_get d' i = Some r' \<and>
        (\<forall>j. j \<noteq> i \<longrightarrow> roster_get d' j = roster_get d j) \<and>
        db_users d' = db_users d \<and> db_shifts d' = db_shifts d \<and>
        db_timesheets d' = db_timesheets d \<and> db_leave d' = db_leave d"
    using g by (intro exI[of _ r]) (simp add: r')
qed

lemma date_2024_03_05: "strptime_ymd ''2024-03-05'' = Some 738950"
  by (simp add: parse_defs)

lemmas update_defs = update_roster_entry_def update_employee_def update_shift_def update_date_def
  update_hours_def update_notes_def roster_store_def only_date_def no_fields_def

text \<open>
  The Manager moves the approved row of employee 7 to 2024-03-05 with a body that also
  carries \<^verbatim>\<open>status\<close>: only the date changes.
\<close>

theorem update_frame_witness:
  "update_roster_entry e7_db 2 1 ((only_date ''2024-03-05'')\<lparr>ed_other := [(''status'', ''pending'')]\<rparr>) =
     (Inr (e7_entry\<lparr>sr_date := 738950\<rparr>), e7_db\<lparr>db_roster := [e7_entry\<lparr>sr_date := 738950\<rparr>]\<rparr>) \<and>
   sr_status (e7_entry\<lparr>sr_date := 738950\<rparr>) = ''approved'' \<and>
   roster_get (e7_db\<lparr>db_roster := [e7_entry\<lparr>sr_date := 738950\<rparr>]\<rparr>) 1 = Some (e7_entry\<lparr>sr_date := 738950\<rparr>)"
proof -
  have h: "update_roster_entry e7_db 2 1 ((only_date ''2024-03-05'')\<lparr>ed_other := [(''status'', ''pending'')]\<rparr>) =
     (Inr (e7_entry\<lparr>sr_date := 738950\<rparr>), e7_db\<lparr>db_roster := [e7_entry\<lparr>sr_date := 738950\<rparr>]\<rparr>)"
    by (simp add: update_defs handler_defs scenario_defs date_2024_03_05)
  have g: "roster_get e7_db 1 = Some e7_entry"
    by (simp add: roster_get_def scenario_defs)
  from update_frame[of e7_db 2 1 "(only_date ''2024-03-05'')\<lparr>ed_other := [(''status'', ''pending'')]\<rparr>"
      "e7_entry\<lparr>sr_date := 738950\<rparr>" "e7_db\<lparr>db_roster := [e7_entry\<lparr>sr_date := 738950\<rparr>]\<rparr>"] h g
  have "sr_status (e7_entry\<lparr>sr_date := 738950\<rparr>) = sr_status e7_entry \<and>
     roster_get (e7_db\<lparr>db_roster := [e7_entry\<lparr>sr_date := 738950\<rparr>]\<rparr>) 1 = Some (e7_entry\<lparr>sr_date := 738950\<rparr>)"
    by simp
  with h show ?thesis by (simp add: e7_entry_def)
qed

lemma update_keeps_key_and_approval:
  assumes "update_roster_entry d jwt i data = (Inr r', d')"
  shows "\<exists>r. roster_get d i = Some r \<and> approval r' = approval r \<and> sr_id r' = i \<and>
             d' = roster_store d i r'"
proof -
  from update_success[OF assms] obtain r dt where g: "roster_get d i = Some r"
    and r': "r' = r\<lparr>sr_employee_id := (case ed_employee_id data of None \<Rightarrow> sr_employee_id r | Some e \<Rightarrow> e),
            sr_shift_id := (case ed_shift_id data of None \<Rightarrow> sr_shift_id r | Some s \<Rightarrow> s),
            sr_date := dt,
            sr_hours := (case ed_hours data of None \<Rightarrow> sr_hours r | Some h \<Rightarrow> h),
            sr_notes := (case ed_notes data of None \<Rightarrow> sr_notes r | Some n \<Rightarrow> Some n)\<rparr>"
    and d': "d' = roster_store d i r'" by blast
  from roster_get_id[OF g] have "sr_id r' = i" by (simp add: r')
  moreover have "approval r' = approval r" by (simp add: r' approval_def)
  ultimately show ?thesis using g d' by blast
qed

subsection \<open>What each operation does to the approval state of a row\<close>

lemma roster_get_append: "roster_get d i = Some r \<Longrightarrow> roster_get (d\<lparr>db_roster := db_roster d @ new\<rparr>) i = Some r"
  by (simp add: roster_get_def find_append_Some)

lemma create_keeps_row:
  assumes "roster_get d i = Some r"
  shows "roster_get (snd (create_roster_entry d jwt data)) i = Some r"
proof -
  obtain res d' where eq: "create_roster_entry d jwt data = (res, d')"
    by (cases "create_roster_entry d jwt data")
  from create_cases[OF eq] assms show ?thesis
    by (auto simp: eq session_add_def roster_get_append)
qed

lemma create_bulk_cases:
  "snd (create_bulk_roster d jwt entries) = d \<or>
   (\<exists>rs. create_bulk_roster d jwt entries = (Inr rs, d\<lparr>db_roster := db_roster d @ rs\<rparr>))"
proof (cases "create_bulk_roster d jwt entries")
  case (Pair res d')
  show ?thesis
  proof (cases res)
    case (Inl err)
    with Pair have "d' = d"
      by (auto simp: create_bulk_roster_def split: option.splits if_splits prod.splits)
    with Pair show ?thesis by simp
  next
    case (Inr rs)
    with Pair create_bulk_success[of d jwt entries rs d'] show ?thesis by simp
  qed
qed

lemma create_bulk_keeps_row:
  assumes "roster_get d i = Some r"
  shows "roster_get (snd (create_bulk_roster d jwt entries)) i = Some r"
  using create_bulk_cases[of d jwt entries] assms
  by (auto simp: roster_get_append)

lemma update_keeps_approval:
  assumes "roster_get d i = Some r"
  shows "approval_of (snd (update_roster_entry d jwt j data)) i = Some (approval r)"
proof -
  from update_cases[of d jwt j data] show ?thesis
  proof
    assume "\<exists>err. update_roster_entry d jwt j data = (Inl err, d)"
    with assms show ?thesis by (auto simp: approval_of_def)
  next
    assume "\<exists>r r1 r2 r3. roster_get d j = Some r \<and> update_employee d data r = Inr r1 \<and>
      update_shift d data r1 = Inr r2 \<and> update_date data r2 = Inr r3 \<and>
      update_roster_entry d jwt j data =
        (Inr (update_notes data (update_hours data r3)),
         roster_store d j (update_notes data (update_hours data r3)))"
    then obtain r' d' where u: "update_roster_entry d jwt j data = (Inr r', d')" by auto
    from update_keeps_key_and_approval[OF u] obtain r0 where g: "roster_get d j = Some r0"
      and a: "approval r' = approval r0" and id: "sr_id r' = j" and d': "d' = roster_store d j r'"
      by blast
    show ?thesis
    proof (cases "i = j")
      case True
      with g assms a show ?thesis
        by (simp add: u d' approval_of_def roster_get_store[OF id])
    next
      case False
      with assms show ?thesis
        by (simp add: u d' approval_of_def roster_get_store[OF id])
    qed
  qed
qed

lemma delete_cases:
  "snd (delete_roster_entry d jwt j) = d \<or>
   snd (delete_roster_entry d jwt j) = d\<lparr>db_roster := filter (\<lambda>r. sr_id r \<noteq> j) (db_roster d)\<rparr>"
  by (auto simp: delete_roster_entry_def split: option.splits)

lemma delete_keeps_other:
  assumes "roster_get d i = Some r" and "i \<noteq> j"
  shows "roster_get (snd (delete_roster_entry d jwt j)) i = Some r"
proof -
  have "find (\<lambda>r. sr_id r = i) (filter (\<lambda>r. sr_id r \<noteq> j) (db_roster d)) = find (\<lambda>r. sr_id r = i) (db_roster d)"
    using assms(2) by (intro find_filter_weaker) simp
  with delete_cases[of d jwt j] assms(1) show ?thesis
    by (auto simp: roster_get_def)
qed

lemma delete_removes:
  "roster_get (d\<lparr>db_roster := filter (\<lambda>r. sr_id r \<noteq> j) (db_roster d)\<rparr>) j = None"
  by (simp add: roster_get_def find_None_iff)

text \<open>
  Claim C3, as amended (terminal states and the operations). For a roster entry \<open>r\<close> with
  key \<open>i\<close> whose status is \<^verbatim>\<open>approved\<close> or \<^verbatim>\<open>rejected\<close>: creation, bulk creation
  and update leave its status, approver and approval time as they are; deletion leaves
  them as they are or removes the row; and the approve/reject action, which has no guard
  on the current status, writes the new status, the acting principal and the clock's
  time over them.
\<close>

theorem terminal_changed_only_by_action:
  "roster_get d i = Some r \<and> terminal r \<longrightarrow>
     approval_of (snd (create_roster_entry d jwt data)) i = Some (approval r) \<and>
     approval_of (snd (create_bulk_roster d jwt entries)) i = Some (approval r) \<and>
     approval_of (snd (update_roster_entry d jwt j data)) i = Some (approval r) \<and>
     (approval_of (snd (delete_roster_entry d jwt j)) i = Some (approval r) \<or>
      approval_of (snd (delete_roster_entry d jwt j)) i = None \<and> i = j) \<and>
     (principal_may_write d jwt \<and> ad_action a = Some ''approve'' \<longrightarrow>
        approval_of (snd (approve_roster_entry d jwt i a now)) i =
          Some (''approved'', Some jwt, Some now)) \<and>
     (principal_may_write d jwt \<and> ad_action a = Some ''reject'' \<longrightarrow>
        approval_of (snd (approve_roster_entry d jwt i a now)) i =
          Some (''rejected'', Some jwt, Some now))"
proof (intro impI, elim conjE)
  assume g: "roster_get d i = Some r"
  have c: "approval_of (snd (create_roster_entry d jwt data)) i = Some (approval r)"
    by (simp add: approval_of_def create_keeps_row[OF g])
  have b: "approval_of (snd (create_bulk_roster d jwt entries)) i = Some (approval r)"
    by (simp add: approval_of_def create_bulk_keeps_row[OF g])
  have u: "approval_of (snd (update_roster_entry d jwt j data)) i = Some (approval r)"
    by (rule update_keeps_approval[OF g])
  have dl: "approval_of (snd (delete_roster_entry d jwt j)) i = Some (approval r) \<or>
      approval_of (snd (delete_roster_entry d jwt j)) i = None \<and> i = j"
  proof (cases "i = j")
    case False
    then show ?thesis by (simp add: approval_of_def delete_keeps_other[OF g])
  next
    case True
    with delete_cases[of d jwt j] g show ?thesis
      by (auto simp: approval_of_def delete_removes)
  qed
  have id: "sr_id r = i" by (rule roster_get_id[OF g])
  have ap: "approval_of (snd (approve_roster_entry d jwt i a now)) i =
          Some (''approved'', Some jwt, Some now)"
    if "principal_may_write d jwt" "ad_action a = Some ''approve''"
    using approve_ok[OF that(1) g, of a now] that(2)
    by (simp add: Let_def approval_of_def roster_get_store sr_id_decided id g)
       (simp add: approval_def decided_def)
  have rj: "approval_of (snd (approve_roster_entry d jwt i a now)) i =
          Some (''rejected'', Some jwt, Some now)"
    if "principal_may_write d jwt" "ad_action a = Some ''reject''"
    using approve_ok[OF that(1) g, of a now] that(2)
    by (simp add: Let_def approval_of_def roster_get_store sr_id_decided id g)
       (simp add: approval_def decided_def)
  from c b u dl ap rj
  show "approval_of (snd (create_roster_entry d jwt data)) i = Some (approval r) \<and>
     approval_of (snd (create_bulk_roster d jwt entries)) i = Some (approval r) \<and>
     approval_of (snd (update_roster_entry d jwt j data)) i = Some (approval r) \<and>
     (approval_of (snd (delete_roster_entry d jwt j)) i = Some (approval r) \<or>
      approval_of (snd (delete_roster_entry d jwt j)) i = None \<and> i = j) \<and>
     (principal_may_write d jwt \<and> ad_action a = Some ''approve'' \<longrightarrow>
        approval_of (snd (approve_roster_entry d jwt i a now)) i =
          Some (''approved'', Some jwt, Some now)) \<and>
     (principal_may_write d jwt \<and> ad_action a = Some ''reject'' \<longrightarrow>
        approval_of (snd (approve_roster_entry d jwt i a now)) i =
          Some (''rejected'', Some jwt, Some now))"
    by blast
qed

lemmas approve_defs = approve_roster_entry_def roster_store_def approval_of_def approval_def

text \<open>
  Claim C3 as stated fails: the row of employee 7, approved by principal 2 at time 1000,
  is rejected by the Admin at time 2000, and status, approver and approval time all change.
\<close>

theorem terminal_overwritten_counterexample:
  "roster_get e7_db 1 = Some e7_entry \<and> terminal e7_entry \<and>
   approval e7_entry = (''approved'', Some 2, Some 1000) \<and>
   approval_of (snd (approve_roster_entry e7_db 1 1 \<lparr>ad_action = Some ''reject'', ad_notes = None\<rparr> 2000)) 1 =
     Some (''rejected'', Some 1, Some 2000)"
  by (simp add: approve_defs handler_defs scenario_defs terminal_def)

text \<open>
  In the scenario, the approved row of employee 7 keeps its approval state through an
  update of its date and through the creation of another row, and a reject action by
  the Admin overwrites it.
\<close>

theorem terminal_changed_only_by_action_witness:
  "roster_get e7_db 1 = Some e7_entry \<and> terminal e7_entry \<and> principal_may_write e7_db 1 \<and>
   approval_of (snd (create_roster_entry e7_db 2 (request 8 1 ''2024-03-01'' 8))) 1 =
     Some (''approved'', Some 2, Some 1000) \<and>
   approval_of (snd (update_roster_entry e7_db 1 1 (only_date ''2024-03-05''))) 1 =
     Some (''approved'', Some 2, Some 1000) \<and>
   approval_of (snd (approve_roster_entry e7_db 1 1 \<lparr>ad_action = Some ''reject'', ad_notes = None\<rparr> 2000)) 1 =
     Some (''rejected'', Some 1, Some 2000)"
proof -
  have g: "roster_get e7_db 1 = Some e7_entry"
    by (simp add: roster_get_def scenario_defs)
  have t: "terminal e7_entry"
    by (simp add: terminal_def e7_entry_def)
  have pw: "principal_may_write e7_db 1"
    by (simp add: principal_may_write_def handler_defs scenario_defs)
  have a: "approval e7_entry = (''approved'', Some 2, Some 1000)"
    by (simp add: approval_def e7_entry_def)
  from terminal_changed_only_by_action[of e7_db 1 e7_entry 2 "request 8 1 ''2024-03-01'' 8" "[]" 1
      "\<lparr>ad_action = Some ''reject'', ad_notes = None\<rparr>" 2000] g t a
  have c: "approval_of (snd (create_roster_entry e7_db 2 (request 8 1 ''2024-03-01'' 8))) 1 =
     Some (''approved'', Some 2, Some 1000)"
    by simp
  from terminal_changed_only_by_action[of e7_db 1 e7_entry 1 "only_date ''2024-03-05''" "[]" 1
      "\<lparr>ad_action = Some ''reject'', ad_notes = None\<rparr>" 2000] g t pw a
  have u: "approval_of (snd (update_roster_entry e7_db 1 1 (only_date ''2024-03-05''))) 1 =
       Some (''approved'', Some 2, Some 1000) \<and>
     approval_of (snd (approve_roster_entry e7_db 1 1 \<lparr>ad_action = Some ''reject'', ad_notes = None\<rparr> 2000)) 1 =
       Some (''rejected'', Some 1, Some 2000)"
    by simp
  from g t pw c u show ?thesis by simp
qed

subsection \<open>Update and the booking invariant\<close>

lemma booked_a_and_b_rows:
  "booked_a_and_b =
     empty_roster_db\<lparr>db_roster :=
       [\<lparr>sr_id = 1, sr_employee_id = 7, sr_shift_id = 1, sr_date = 738946, sr_hours = 8,
         sr_status = ''pending'', sr_approved_by = None, sr_approved_at = None, sr_notes = Some []\<rparr>,
        \<lparr>sr_id = 2, sr_employee_id = 7, sr_shift_id = 2, sr_date = 738947, sr_hours = 8,
         sr_status = ''pending'', sr_approved_by = None, sr_approved_at = None, sr_notes = Some []\<rparr>]\<rparr>"
  by (simp add: booked_a_and_b_def empty_roster_db_def handler_defs scenario_defs
      date_2024_03_01 date_2024_03_02)

lemma update_b_onto_a:
  "update_roster_entry booked_a_and_b 2 2 (only_date ''2024-03-01'') =
     (Inr \<lparr>sr_id = 2, sr_employee_id = 7, sr_shift_id = 2, sr_date = 738946, sr_hours = 8,
         sr_status = ''pending'', sr_approved_by = None, sr_approved_at = None, sr_notes = Some []\<rparr>,
      empty_roster_db\<lparr>db_roster :=
       [\<lparr>sr_id = 1, sr_employee_id = 7, sr_shift_id = 1, sr_date = 738946, sr_hours = 8,
         sr_status = ''pending'', sr_approved_by = None, sr_approved_at = None, sr_notes = Some []\<rparr>,
        \<lparr>sr_id = 2, sr_employee_id = 7, sr_shift_id = 2, sr_date = 738946, sr_hours = 8,
         sr_status = ''pending'', sr_approved_by = None, sr_approved_at = None, sr_notes = Some []\<rparr>]\<rparr>)"
  by (simp add: booked_a_and_b_rows empty_roster_db_def update_defs handler_defs scenario_defs
      date_2024_03_01)

text \<open>
  Claim C9 (update does not re-validate the booking invariant). There is a database
  reached from an empty roster table by successful creations, with no pair booked twice,
  in which an update succeeds and leaves two rows with the (employee, date) pair of the
  updated row: rows A (employee 7, 2024-03-01) and B (employee 7, 2024-03-02) are
  created, and B's date is then updated to 2024-03-01.
\<close>

theorem update_double_books:
  "\<exists>d0 calls jwt i data r' d'.
     db_roster d0 = [] \<and> no_double_booking (create_all d0 calls) \<and>
     length (db_roster (create_all d0 calls)) = length calls \<and>
     update_roster_entry (create_all d0 calls) jwt i data = (Inr r', d') \<and>
     length (bookings d' (sr_employee_id r') (sr_date r')) = 2 \<and>
     \<not> no_double_booking d'"
proof -
  let ?calls = "[(2, request 7 1 ''2024-03-01'' 8), (2, request 7 2 ''2024-03-02'' 8)]"
  let ?r' = "\<lparr>sr_id = 2, sr_employee_id = 7, sr_shift_id = 2, sr_date = 738946, sr_hours = 8,
         sr_status = ''pending'', sr_approved_by = None, sr_approved_at = None, sr_notes = Some []\<rparr>"
  let ?d' = "snd (update_roster_entry booked_a_and_b 2 2 (only_date ''2024-03-01''))"
  have c: "create_all empty_roster_db ?calls = booked_a_and_b"
    by (simp add: booked_a_and_b_def)
  have u: "update_roster_entry booked_a_and_b 2 2 (only_date ''2024-03-01'') = (Inr ?r', ?d')"
    by (simp add: update_b_onto_a)
  have "db_roster empty_roster_db = [] \<and> no_double_booking (create_all empty_roster_db ?calls) \<and>
     length (db_roster (create_all empty_roster_db ?calls)) = length ?calls \<and>
     update_roster_entry (create_all empty_roster_db ?calls) 2 2 (only_date ''2024-03-01'') = (Inr ?r', ?d') \<and>
     length (bookings ?d' (sr_employee_id ?r') (sr_date ?r')) = 2 \<and>
     \<not> no_double_booking ?d'"
    unfolding c
  proof (intro conjI)
    show "db_roster empty_roster_db = []" by (simp add: empty_roster_db_def)
    show "no_double_booking booked_a_and_b"
      by (simp add: booked_a_and_b_rows no_double_booking_def roster_key_def)
    show "length (db_roster booked_a_and_b) = length ?calls"
      by (simp add: booked_a_and_b_rows)
    show "update_roster_entry booked_a_and_b 2 2 (only_date ''2024-03-01'') = (Inr ?r', ?d')"
      by (rule u)
    show "length (bookings ?d' (sr_employee_id ?r') (sr_date ?r')) = 2"
      by (simp add: update_b_onto_a bookings_def)
    show "\<not> no_double_booking ?d'"
      by (simp add: update_b_onto_a no_double_booking_def roster_key_def)
  qed
  then show ?thesis by blast
qed

subsection \<open>The bulk loop against entry-wise validation\<close>

lemma requested_key_Some:
  "requested_key x = Some k \<longleftrightarrow>
     (\<exists>e ds dt. ed_employee_id x = Some e \<and> ed_date x = Some ds \<and> strptime_ymd ds = Some dt \<and> k = (e, dt))"
  by (auto simp: requested_key_def split: option.splits)

lemma existing_entry_None_iff:
  "existing_entry d e dt = None \<longleftrightarrow> (e, dt) \<notin> booked_pairs d"
  by (auto simp: existing_entry_def find_None_iff booked_pairs_def roster_key_def)

lemma booked_pairs_add: "booked_pairs (session_add d r) = insert (roster_key r) (booked_pairs d)"
  by (simp add: booked_pairs_def session_add_def)

lemma entry_valid_same:
  "db_users d' = db_users d \<Longrightarrow> db_shifts d' = db_shifts d \<Longrightarrow>
     entry_valid d' booked x = entry_valid d booked x"
  by (simp add: entry_valid_def references_exist_def user_get_def shift_get_def
      cong: option.case_cong)

text \<open>A step adds a row exactly for a valid entry, and the row is the entry's.\<close>

lemma bulk_step_valid:
  "snd (bulk_step d i x) \<noteq> None \<longleftrightarrow> entry_valid d (booked_pairs d) x"
proof
  assume "snd (bulk_step d i x) \<noteq> None"
  then obtain r where "bulk_step d i x = (fst (bulk_step d i x), Some r)"
    by (metis prod.collapse not_None_eq)
  from bulk_step_Some[OF this] show "entry_valid d (booked_pairs d) x"
    by (auto simp: entry_valid_def missing_fields_Nil references_exist_def requested_key_def
        existing_entry_None_iff)
next
  assume v: "entry_valid d (booked_pairs d) x"
  then obtain e s ds h dt where f: "ed_employee_id x = Some e" "ed_shift_id x = Some s"
      "ed_date x = Some ds" "ed_hours x = Some h" "strptime_ymd ds = Some dt"
      "existing_entry d e dt = None" "user_get d e \<noteq> None" "shift_get d s \<noteq> None"
    by (auto simp: entry_valid_def missing_fields_Nil references_exist_def requested_key_def
        existing_entry_None_iff split: option.splits)
  from f have "missing_fields x = []" by (simp add: missing_fields_Nil)
  with f show "snd (bulk_step d i x) \<noteq> None"
    by (auto simp: bulk_step_def)
qed

lemma bulk_step_row_of_entry:
  assumes "bulk_step d i x = (errs, Some r)"
  shows "row_of_entry x r \<and> requested_key x = Some (roster_key r) \<and> sr_id r = next_roster_id d"
proof -
  from bulk_step_Some[OF assms] obtain e s ds dt h where
    f: "ed_employee_id x = Some e" "ed_shift_id x = Some s" "ed_date x = Some ds"
       "ed_hours x = Some h" "strptime_ymd ds = Some dt"
    and r: "r = new_roster_entry d e s dt h (ed_notes x)"
    by blast
  have "row_of_entry x r"
    by (simp add: row_of_entry_def f r new_roster_entry_def)
  moreover have "requested_key x = Some (roster_key r)"
    by (simp add: requested_key_def f r roster_key_def new_roster_entry_def)
  moreover have "sr_id r = next_roster_id d"
    by (simp add: r new_roster_entry_def)
  ultimately show ?thesis by simp
qed

lemma bulk_step_errs:
  "bulk_step d i x = (errs, ro) \<Longrightarrow>
     (ro = None \<longrightarrow> errs \<noteq> [] \<and> position ` set errs = {i + 1}) \<and> (ro \<noteq> None \<longrightarrow> errs = [])"
proof (cases ro)
  case None
  assume a: "bulk_step d i x = (errs, ro)"
  from bulk_step_None[OF a[unfolded None]] have "errs \<noteq> []" "\<forall>b \<in> set errs. position b = i + 1"
    by simp_all
  then have "position ` set errs = {i + 1}" by (cases errs) auto
  with \<open>errs \<noteq> []\<close> None show ?thesis by simp
next
  case (Some r)
  assume a: "bulk_step d i x = (errs, ro)"
  from bulk_step_Some[OF a[unfolded Some]] Some show ?thesis by simp
qed

text \<open>
  The loop from a session \<open>s\<close> of the database \<open>d\<close> (same users and shifts): the
  positions of its errors, and the rows it creates when no entry fails.
\<close>

lemma bulk_loop_positions:
  "db_users s = db_users d \<Longrightarrow> db_shifts s = db_shifts d \<Longrightarrow>
   bulk_loop s i xs created errors = (s', created', errors') \<Longrightarrow>
     position ` set errors' =
       position ` set errors \<union> set (invalid_positions d (booked_pairs s) (i + 1) xs) \<and>
     (invalid_positions d (booked_pairs s) (i + 1) xs = [] \<longrightarrow>
        (\<exists>new. created' = created @ new \<and> list_all2 row_of_entry xs new))"
proof (induction xs arbitrary: s i created errors)
  case Nil
  then show ?case by auto
next
  case (Cons x xs)
  obtain errs ro where st: "bulk_step s i x = (errs, ro)" by (cases "bulk_step s i x")
  note e = bulk_step_errs[OF st]
  from bulk_step_valid[of s i x] st
  have v: "ro \<noteq> None \<longleftrightarrow> entry_valid d (booked_pairs s) x"
    by (simp add: entry_valid_same[OF Cons.prems(1,2)])
  show ?case
  proof (cases ro)
    case None
    with Cons.prems st have l: "bulk_loop s (i + 1) xs created (errors @ errs) = (s', created', errors')"
      by simp
    from None v have inv: "invalid_positions d (booked_pairs s) (i + 1) (x # xs) =
        (i + 1) # invalid_positions d (booked_pairs s) (i + 1 + 1) xs"
      by (simp split: option.splits)
    from Cons.IH[OF Cons.prems(1,2) l] e None
    have "position ` set errors' =
       position ` set errors \<union> set (invalid_positions d (booked_pairs s) (i + 1) (x # xs))"
      unfolding inv by (auto simp: image_Un)
    with inv show ?thesis by simp
  next
    case (Some r)
    with Cons.prems st
    have l: "bulk_loop (session_add s r) (i + 1) xs (created @ [r]) (errors @ errs) = (s', created', errors')"
      by simp
    from bulk_step_row_of_entry[OF st[unfolded Some]]
    have row: "row_of_entry x r" and key: "requested_key x = Some (roster_key r)" by simp_all
    have same: "db_users (session_add s r) = db_users d" "db_shifts (session_add s r) = db_shifts d"
      using Cons.prems(1,2) by (simp_all add: session_add_def)
    from Some v key have inv: "invalid_positions d (booked_pairs s) (i + 1) (x # xs) =
        invalid_positions d (booked_pairs (session_add s r)) (i + 1 + 1) xs"
      by (simp add: booked_pairs_add)
    from Cons.IH[OF same l] e Some
    have p: "position ` set errors' =
       position ` set errors \<union> set (invalid_positions d (booked_pairs s) (i + 1) (x # xs))"
      and c: "invalid_positions d (booked_pairs s) (i + 1) (x # xs) = [] \<longrightarrow>
        (\<exists>new. created' = (created @ [r]) @ new \<and> list_all2 row_of_entry xs new)"
      unfolding inv by (auto simp: image_Un)
    have "\<exists>new. created' = created @ new \<and> list_all2 row_of_entry (x # xs) new"
      if "invalid_positions d (booked_pairs s) (i + 1) (x # xs) = []"
    proof -
      from c that obtain new where n: "created' = (created @ [r]) @ new" "list_all2 row_of_entry xs new"
        by blast
      with row have "created' = created @ (r # new) \<and> list_all2 row_of_entry (x # xs) (r # new)"
        by simp
      then show ?thesis by blast
    qed
    with p show ?thesis by blast
  qed
qed

text \<open>The keys of the rows a loop adds are new and differ from one another.\<close>

lemma fold_max_ge_start: "(a::int) \<le> fold max xs a"
proof (induction xs arbitrary: a)
  case Nil
  then show ?case by simp
next
  case (Cons x xs)
  have "a \<le> max x a" by simp
  also have "\<dots> \<le> fold max xs (max x a)" by (rule Cons.IH)
  finally show ?case by simp
qed

lemma fold_max_ge_member: "x \<in> set xs \<Longrightarrow> (x::int) \<le> fold max xs a"
proof (induction xs arbitrary: a)
  case Nil
  then show ?case by simp
next
  case (Cons y ys)
  show ?case
  proof (cases "x = y")
    case True
    have "x \<le> max y a" using True by simp
    also have "\<dots> \<le> fold max ys (max y a)" by (rule fold_max_ge_start)
    finally show ?thesis by simp
  next
    case False
    with Cons.prems have "x \<in> set ys" by simp
    from Cons.IH[OF this] show ?thesis by simp
  qed
qed

lemma next_roster_id_fresh: "next_roster_id d \<notin> sr_id ` set (db_roster d)"
proof
  assume "next_roster_id d \<in> sr_id ` set (db_roster d)"
  then have "next_roster_id d \<in> set (map sr_id (db_roster d))" by simp
  from fold_max_ge_member[OF this, of 0] show False
    by (simp add: next_roster_id_def)
qed

lemma bulk_loop_keys:
  "bulk_loop s i xs created errors = (s', created', errors') \<Longrightarrow>
     \<exists>new. created' = created @ new \<and> distinct (map sr_id new) \<and>
           (\<forall>r \<in> set new. sr_id r \<notin> sr_id ` set (db_roster s))"
proof (induction xs arbitrary: s i created errors)
  case Nil
  then show ?case by simp
next
  case (Cons x xs)
  obtain errs ro where st: "bulk_step s i x = (errs, ro)" by (cases "bulk_step s i x")
  show ?case
  proof (cases ro)
    case None
    with Cons.prems st have "bulk_loop s (i + 1) xs created (errors @ errs) = (s', created', errors')"
      by simp
    from Cons.IH[OF this] show ?thesis .
  next
    case (Some r)
    with Cons.prems st
    have "bulk_loop (session_add s r) (i + 1) xs (created @ [r]) (errors @ errs) = (s', created', errors')"
      by simp
    from Cons.IH[OF this] obtain new where n: "created' = (created @ [r]) @ new"
      "distinct (map sr_id new)"
      "\<forall>q \<in> set new. sr_id q \<notin> sr_id ` set (db_roster (session_add s r))"
      by blast
    from bulk_step_row_of_entry[OF st[unfolded Some]] have "sr_id r = next_roster_id s" by simp
    with next_roster_id_fresh[of s] have fr: "sr_id r \<notin> sr_id ` set (db_roster s)" by simp
    from n(3) have a: "\<forall>q \<in> set new. sr_id q \<noteq> sr_id r \<and> sr_id q \<notin> sr_id ` set (db_roster s)"
      by (auto simp: session_add_def)
    then have "sr_id r \<notin> sr_id ` set new" by force
    with n(1,2) a fr have "created' = created @ (r # new) \<and> distinct (map sr_id (r # new)) \<and>
           (\<forall>q \<in> set (r # new). sr_id q \<notin> sr_id ` set (db_roster s))"
      by simp
    then show ?thesis by blast
  qed
qed

text \<open>
  Claim C2 (bulk creation is all-or-nothing, with positioned errors). For a Manager or
  Admin principal and a non-empty batch: if some entry fails validation, the answer is
  the error list, the database is the one the request found (nothing is persisted), and
  the positions the errors name are exactly the 1-based positions of the entries that
  fail validation; if no entry fails, all entries are persisted: the answer lists one
  row per entry, in order, each carrying its entry's employee, shift, date, hours and
  notes and pending, under keys that are new and differ from one another, and the
  roster table is the old one followed by these rows.
\<close>

theorem bulk_all_or_nothing:
  "principal_may_write d jwt \<and> entries \<noteq> [] \<longrightarrow>
     (invalid_positions d (booked_pairs d) 1 entries \<noteq> [] \<longrightarrow>
        (\<exists>errs. create_bulk_roster d jwt entries = (Inl (Some_entries_not_created errs), d) \<and>
                position ` set errs = set (invalid_positions d (booked_pairs d) 1 entries))) \<and>
     (invalid_positions d (booked_pairs d) 1 entries = [] \<longrightarrow>
        (\<exists>rows. create_bulk_roster d jwt entries = (Inr rows, d\<lparr>db_roster := db_roster d @ rows\<rparr>) \<and>
                length rows = length entries \<and> list_all2 row_of_entry entries rows \<and>
                distinct (map sr_id rows) \<and>
                (\<forall>r \<in> set rows. sr_id r \<notin> sr_id ` set (db_roster d))))"
proof (intro impI, elim conjE)
  assume pw: "principal_may_write d jwt" and ne: "entries \<noteq> []"
  from principal_may_writeD[OF pw] obtain u where
    u: "get_current_user d jwt = Some u" "is_admin_or_manager u" by blast
  obtain s c e where l: "bulk_loop d 0 entries [] [] = (s, c, e)"
    by (cases "bulk_loop d 0 entries [] []")
  from bulk_loop_positions[OF refl refl l]
  have pos: "position ` set e = set (invalid_positions d (booked_pairs d) 1 entries)"
    and rows: "invalid_positions d (booked_pairs d) 1 entries = [] \<longrightarrow> list_all2 row_of_entry entries c"
    by simp_all
  from bulk_loop_keys[OF l]
  have keys: "distinct (map sr_id c)" "\<forall>r \<in> set c. sr_id r \<notin> sr_id ` set (db_roster d)"
    by simp_all
  from bulk_loop_appends[OF l] have s: "s = d\<lparr>db_roster := db_roster d @ c\<rparr>" by auto
  have r: "create_bulk_roster d jwt entries =
      (if e \<noteq> [] then (Inl (Some_entries_not_created e), d) else (Inr c, s))"
    by (simp add: create_bulk_roster_def u ne l)
  have bad: "\<exists>errs. create_bulk_roster d jwt entries = (Inl (Some_entries_not_created errs), d) \<and>
                position ` set errs = set (invalid_positions d (booked_pairs d) 1 entries)"
    if "invalid_positions d (booked_pairs d) 1 entries \<noteq> []"
  proof -
    from that pos have "e \<noteq> []" by auto
    with r pos show ?thesis by simp
  qed
  have good: "\<exists>rows. create_bulk_roster d jwt entries = (Inr rows, d\<lparr>db_roster := db_roster d @ rows\<rparr>) \<and>
                length rows = length entries \<and> list_all2 row_of_entry entries rows \<and>
                distinct (map sr_id rows) \<and>
                (\<forall>r \<in> set rows. sr_id r \<notin> sr_id ` set (db_roster d))"
    if "invalid_positions d (booked_pairs d) 1 entries = []"
  proof -
    from that pos have "e = []" by auto
    with r s have c: "create_bulk_roster d jwt entries = (Inr c, d\<lparr>db_roster := db_roster d @ c\<rparr>)"
      by simp
    from rows that have la: "list_all2 row_of_entry entries c" by simp
    then have "length c = length entries" by (simp add: list_all2_lengthD)
    with c la keys show ?thesis by blast
  qed
  from bad good
  show "(invalid_positions d (booked_pairs d) 1 entries \<noteq> [] \<longrightarrow>
        (\<exists>errs. create_bulk_roster d jwt entries = (Inl (Some_entries_not_created errs), d) \<and>
                position ` set errs = set (invalid_positions d (booked_pairs d) 1 entries))) \<and>
     (invalid_positions d (booked_pairs d) 1 entries = [] \<longrightarrow>
        (\<exists>rows. create_bulk_roster d jwt entries = (Inr rows, d\<lparr>db_roster := db_roster d @ rows\<rparr>) \<and>
                length rows = length entries \<and> list_all2 row_of_entry entries rows \<and>
                distinct (map sr_id rows) \<and>
                (\<forall>r \<in> set rows. sr_id r \<notin> sr_id ` set (db_roster d))))"
    by blast
qed

lemma date_2024_3_1: "strptime_ymd ''2024-3-1'' = Some 738946"
  by (simp add: parse_defs)

lemmas valid_defs = entry_valid_def references_exist_def requested_key_def booked_pairs_def
  roster_key_def

text \<open>
  The scenario of the specification: of three entries the second names a shift that
  does not exist; the batch is refused with exactly one error, at position 2, and the
  database is unchanged. And a batch of two valid entries is persisted whole: the rows
  of employees 8 and 9 follow the row of employee 7 under the keys 2 and 3, each with
  its entry's shift, date, hours and notes.
\<close>

theorem bulk_all_or_nothing_witness:
  "principal_may_write e7_db 2 \<and> scenario_batch \<noteq> [] \<and>
   invalid_positions e7_db (booked_pairs e7_db) 1 scenario_batch = [2] \<and>
   create_bulk_roster e7_db 2 scenario_batch =
     (Inl (Some_entries_not_created [Entry 2 Bulk_shift_not_found]), e7_db) \<and>
   valid_batch \<noteq> [] \<and> invalid_positions e7_db (booked_pairs e7_db) 1 valid_batch = [] \<and>
   create_bulk_roster e7_db 2 valid_batch =
     (Inr [\<lparr>sr_id = 2, sr_employee_id = 8, sr_shift_id = 1, sr_date = 738946, sr_hours = 8,
            sr_status = ''pending'', sr_approved_by = None, sr_approved_at = None,
            sr_notes = Some []\<rparr>,
           \<lparr>sr_id = 3, sr_employee_id = 9, sr_shift_id = 2, sr_date = 738947, sr_hours = 4,
            sr_status = ''pending'', sr_approved_by = None, sr_approved_at = None,
            sr_notes = Some ''late''\<rparr>],
      e7_db\<lparr>db_roster :=
        [e7_entry,
         \<lparr>sr_id = 2, sr_employee_id = 8, sr_shift_id = 1, sr_date = 738946, sr_hours = 8,
            sr_status = ''pending'', sr_approved_by = None, sr_approved_at = None,
            sr_notes = Some []\<rparr>,
         \<lparr>sr_id = 3, sr_employee_id = 9, sr_shift_id = 2, sr_date = 738947, sr_hours = 4,
            sr_status = ''pending'', sr_approved_by = None, sr_approved_at = None,
            sr_notes = Some ''late''\<rparr>]\<rparr>)"
proof -
  let ?r8 = "\<lparr>sr_id = 2, sr_employee_id = 8, sr_shift_id = 1, sr_date = 738946, sr_hours = 8,
            sr_status = ''pending'', sr_approved_by = None, sr_approved_at = None,
            sr_notes = Some []\<rparr>"
  let ?r9 = "\<lparr>sr_id = 3, sr_employee_id = 9, sr_shift_id = 2, sr_date = 738947, sr_hours = 4,
            sr_status = ''pending'', sr_approved_by = None, sr_approved_at = None,
            sr_notes = Some ''late''\<rparr>"
  have pw: "principal_may_write e7_db 2"
    by (simp add: principal_may_write_def handler_defs scenario_defs)
  have ne: "scenario_batch \<noteq> []"
    by (simp add: scenario_batch_def)
  have inv: "invalid_positions e7_db (booked_pairs e7_db) 1 scenario_batch = [2]"
    by (simp add: scenario_batch_def valid_defs handler_defs scenario_defs date_2024_03_01)
  have f: "fst (create_bulk_roster e7_db 2 scenario_batch) =
      Inl (Some_entries_not_created [Entry 2 Bulk_shift_not_found])"
    by (simp add: scenario_batch_def bulk_defs handler_defs scenario_defs date_2024_03_01)
  from bulk_all_or_nothing[of e7_db 2 scenario_batch] pw ne inv
  have "snd (create_bulk_roster e7_db 2 scenario_batch) = e7_db"
    by auto
  with f have bad: "create_bulk_roster e7_db 2 scenario_batch =
     (Inl (Some_entries_not_created [Entry 2 Bulk_shift_not_found]), e7_db)"
    by (metis prod.collapse)
  have ne2: "valid_batch \<noteq> []"
    by (simp add: valid_batch_def)
  have inv2: "invalid_positions e7_db (booked_pairs e7_db) 1 valid_batch = []"
    by (simp add: valid_batch_def valid_defs handler_defs scenario_defs date_2024_03_01
        date_2024_03_02)
  have f2: "fst (create_bulk_roster e7_db 2 valid_batch) = Inr [?r8, ?r9]"
    by (simp add: valid_batch_def bulk_defs handler_defs scenario_defs date_2024_03_01
        date_2024_03_02)
  from bulk_all_or_nothing[of e7_db 2 valid_batch] pw ne2 inv2
  obtain rows where "create_bulk_roster e7_db 2 valid_batch =
      (Inr rows, e7_db\<lparr>db_roster := db_roster e7_db @ rows\<rparr>)"
    by auto
  with f2 have "create_bulk_roster e7_db 2 valid_batch =
      (Inr [?r8, ?r9], e7_db\<lparr>db_roster := db_roster e7_db @ [?r8, ?r9]\<rparr>)"
    by simp
  moreover have "db_roster e7_db @ [?r8, ?r9] = [e7_entry, ?r8, ?r9]"
    by (simp add: e7_db_def)
  ultimately have good: "create_bulk_roster e7_db 2 valid_batch =
      (Inr [?r8, ?r9], e7_db\<lparr>db_roster := [e7_entry, ?r8, ?r9]\<rparr>)"
    by simp
  from pw ne inv bad ne2 inv2 good show ?thesis by simp
qed

subsection \<open>Duplicates inside one batch\<close>

lemma bulk_loop_append:
  "bulk_loop d i (xs @ ys) created errors =
     (case bulk_loop d i xs created errors of
        (d1, c1, e1) \<Rightarrow> bulk_loop d1 (i + length xs) ys c1 e1)"
  by (induction xs arbitrary: d i created errors) (auto split: prod.splits option.splits)

lemma bulk_loop_errors_grow:
  "bulk_loop d i xs created errors = (d', created', errors') \<Longrightarrow> set errors \<subseteq> set errors'"
proof (induction xs arbitrary: d i created errors)
  case Nil
  then show ?case by simp
next
  case (Cons x xs)
  obtain errs ro where st: "bulk_step d i x = (errs, ro)" by (cases "bulk_step d i x")
  show ?case
  proof (cases ro)
    case None
    with Cons.prems st have "bulk_loop d (i + 1) xs created (errors @ errs) = (d', created', errors')"
      by simp
    from Cons.IH[OF this] show ?thesis by simp
  next
    case (Some r)
    with Cons.prems st
    have "bulk_loop (session_add d r) (i + 1) xs (created @ [r]) (errors @ errs) = (d', created', errors')"
      by simp
    from Cons.IH[OF this] show ?thesis by simp
  qed
qed

lemma existing_entry_append:
  "existing_entry d e dt \<noteq> None \<Longrightarrow> existing_entry (d\<lparr>db_roster := db_roster d @ new\<rparr>) e dt \<noteq> None"
  by (auto simp: existing_entry_def find_None_iff)

lemma existing_entry_added:
  "existing_entry (session_add d (new_roster_entry d e s dt h n)) e dt \<noteq> None"
proof -
  let ?r = "new_roster_entry d e s dt h n"
  have "?r \<in> set (db_roster (session_add d ?r))" by (simp add: session_add_def)
  moreover have "sr_employee_id ?r = e \<and> sr_date ?r = dt" by (simp add: new_roster_entry_def)
  ultimately show ?thesis unfolding existing_entry_def find_None_iff by blast
qed

text \<open>After the step of a well-formed entry the session holds a row for its pair.\<close>

lemma bulk_step_books:
  assumes "missing_fields x = []" and "references_exist d x" and "requested_key x = Some (e, dt)"
    and "bulk_step d i x = (errs, ro)"
  shows "existing_entry (case ro of None \<Rightarrow> d | Some r \<Rightarrow> session_add d r) e dt \<noteq> None"
proof (cases "existing_entry d e dt")
  case (Some y)
  show ?thesis
  proof (cases ro)
    case None
    with Some show ?thesis by simp
  next
    case (Some r)
    from existing_entry_append[of d e dt "[r]"] \<open>existing_entry d e dt = Some y\<close> Some
    show ?thesis by (simp add: session_add_def)
  qed
next
  case None
  from assms(1) obtain e' s ds h where f: "ed_employee_id x = Some e'" "ed_shift_id x = Some s"
    "ed_date x = Some ds" "ed_hours x = Some h"
    by (auto simp: missing_fields_Nil)
  from assms(3) f have k: "e' = e" "strptime_ymd ds = Some dt"
    by (auto simp: requested_key_def)
  from assms(2) f k obtain eu sh where r: "user_get d e = Some eu" "shift_get d s = Some sh"
    by (auto simp: references_exist_def)
  from assms(4) have "ro = Some (new_roster_entry d e s dt h (ed_notes x))"
    by (simp add: bulk_step_def f k r None assms(1))
  then show ?thesis by (simp add: existing_entry_added)
qed

text \<open>An entry that reaches the conflict check against a session holding its pair.\<close>

lemma bulk_step_conflict:
  assumes "references_exist d y" and "requested_key y = Some (e, dt)"
    and "existing_entry d e dt \<noteq> None"
  shows "\<exists>errs. bulk_step d j y = (errs, None) \<and> Entry (j + 1) Bulk_already_scheduled \<in> set errs"
proof -
  from assms(2) obtain ds where f: "ed_employee_id y = Some e" "ed_date y = Some ds"
    "strptime_ymd ds = Some dt"
    by (auto simp: requested_key_Some)
  from assms(1) f obtain s eu sh where r: "ed_shift_id y = Some s" "user_get d e = Some eu"
    "shift_get d s = Some sh"
    by (auto simp: references_exist_def split: option.splits)
  from assms(3) obtain z where z: "existing_entry d e dt = Some z" by auto
  show ?thesis
    by (simp add: bulk_step_def f r z Let_def)
qed

lemma bulk_step_booked_fails:
  assumes "requested_key y = Some (e, dt)" and "existing_entry d e dt \<noteq> None"
    and "bulk_step d j y = (errs, ro)"
  shows "ro = None \<and> errs \<noteq> []"
proof (cases ro)
  case None
  with bulk_step_None[of d j y errs] assms(3) show ?thesis by simp
next
  case (Some r)
  from bulk_step_Some[OF assms(3)[unfolded Some]] assms(1,2) show ?thesis
    by (auto simp: requested_key_def)
qed

lemma bulk_loop_Cons_step:
  "bulk_loop d i (x # xs) c e =
     bulk_loop (case snd (bulk_step d i x) of None \<Rightarrow> d | Some r \<Rightarrow> session_add d r) (i + 1) xs
       (case snd (bulk_step d i x) of None \<Rightarrow> c | Some r \<Rightarrow> c @ [r]) (e @ fst (bulk_step d i x))"
  by (simp split: prod.splits option.splits)

lemma references_exist_same:
  "db_users d' = db_users d \<Longrightarrow> db_shifts d' = db_shifts d \<Longrightarrow>
     references_exist d' x = references_exist d x"
  by (simp add: references_exist_def user_get_def shift_get_def cong: option.case_cong)

lemma step_db_form:
  "\<exists>new. (case ro of None \<Rightarrow> d | Some r \<Rightarrow> session_add d r) = d\<lparr>db_roster := db_roster d @ new\<rparr>"
proof (cases ro)
  case None
  have "d = d\<lparr>db_roster := db_roster d @ []\<rparr>" by simp
  with None show ?thesis by (metis option.simps(4))
next
  case (Some r)
  then show ?thesis by (auto simp: session_add_def)
qed

text \<open>
  The loop over a batch with entries \<open>x\<close> and, later, \<open>y\<close> asking for the same pair
  \<open>(e, dt)\<close>.
\<close>

lemma bulk_loop_duplicate:
  assumes k: "requested_key x = Some (e, dt)" "requested_key y = Some (e, dt)"
    and l: "bulk_loop d 0 (pre @ x # mid @ y # post) [] [] = (d', created, errors)"
  shows "errors \<noteq> [] \<and>
     (missing_fields x = [] \<and> references_exist d x \<and> references_exist d y \<longrightarrow>
        Entry (length pre + length mid + 2) Bulk_already_scheduled \<in> set errors)"
proof -
  let ?i = "length pre" and ?j = "Suc (length pre + length mid)"
  obtain d1 c1 e1 where l1: "bulk_loop d 0 pre [] [] = (d1, c1, e1)"
    by (cases "bulk_loop d 0 pre [] []")
  let ?sx = "bulk_step d1 ?i x"
  let ?d2 = "case snd ?sx of None \<Rightarrow> d1 | Some r \<Rightarrow> session_add d1 r"
  let ?c2 = "case snd ?sx of None \<Rightarrow> c1 | Some r \<Rightarrow> c1 @ [r]"
  obtain d3 c3 e3 where l3: "bulk_loop ?d2 (Suc ?i) mid ?c2 (e1 @ fst ?sx) = (d3, c3, e3)"
    by (cases "bulk_loop ?d2 (Suc ?i) mid ?c2 (e1 @ fst ?sx)")
  let ?sy = "bulk_step d3 ?j y"
  let ?d4 = "case snd ?sy of None \<Rightarrow> d3 | Some r \<Rightarrow> session_add d3 r"
  let ?c4 = "case snd ?sy of None \<Rightarrow> c3 | Some r \<Rightarrow> c3 @ [r]"
  have l5: "bulk_loop ?d4 (Suc ?j) post ?c4 (e3 @ fst ?sy) = (d', created, errors)"
    using l by (simp add: bulk_loop_append bulk_loop_Cons_step l1 l3 del: bulk_loop.simps)
  from bulk_loop_errors_grow[OF l5] have g5: "set e3 \<subseteq> set errors" "set (fst ?sy) \<subseteq> set errors"
    by simp_all
  from bulk_loop_errors_grow[OF l3] have g3: "set (fst ?sx) \<subseteq> set e3" by simp
  from bulk_loop_appends[OF l1] obtain n1 where d1: "d1 = d\<lparr>db_roster := db_roster d @ n1\<rparr>" by blast
  from step_db_form[where ro="snd ?sx" and d=d1] obtain n2 where d2: "?d2 = d1\<lparr>db_roster := db_roster d1 @ n2\<rparr>"
    by blast
  from bulk_loop_appends[OF l3] obtain n3 where d3: "d3 = ?d2\<lparr>db_roster := db_roster ?d2 @ n3\<rparr>"
    by blast
  have refs: "references_exist d1 z = references_exist d z" "references_exist d3 z = references_exist d z" for z
  proof -
    show "references_exist d1 z = references_exist d z"
      by (rule references_exist_same) (simp_all add: d1)
    have u1: "db_users d1 = db_users d" "db_shifts d1 = db_shifts d"
      by (simp_all add: d1)
    have u2: "db_users ?d2 = db_users d1" "db_shifts ?d2 = db_shifts d1"
      using arg_cong[OF d2, of db_users] arg_cong[OF d2, of db_shifts] by simp_all
    have u3: "db_users d3 = db_users ?d2" "db_shifts d3 = db_shifts ?d2"
      using arg_cong[OF d3, of db_users] arg_cong[OF d3, of db_shifts] by simp_all
    have "db_users d3 = db_users d \<and> db_shifts d3 = db_shifts d"
      by (simp only: u1 u2 u3)
    then show "references_exist d3 z = references_exist d z"
      by (intro references_exist_same) simp_all
  qed
  have sx: "bulk_step d1 ?i x = (fst ?sx, snd ?sx)" and sy: "bulk_step d3 ?j y = (fst ?sy, snd ?sy)"
    by simp_all
  have booked3: "existing_entry d3 e dt \<noteq> None" if "existing_entry ?d2 e dt \<noteq> None"
    by (subst d3) (rule existing_entry_append[OF that])
  have nonempty: "errors \<noteq> []"
  proof (cases "snd ?sx")
    case None
    then have "bulk_step d1 ?i x = (fst ?sx, None)" by (metis prod.collapse)
    from bulk_step_None[OF this] have "fst ?sx \<noteq> []" by simp
    with g3 g5 show ?thesis by (cases "fst ?sx") auto
  next
    case (Some r)
    then have "bulk_step d1 ?i x = (fst ?sx, Some r)" by (metis prod.collapse)
    from bulk_step_Some[OF this] k(1)
    have "r = new_roster_entry d1 e (sr_shift_id r) dt (sr_hours r) (ed_notes x)"
      by (auto simp: requested_key_def new_roster_entry_def)
    with existing_entry_added[of d1 e "sr_shift_id r" dt "sr_hours r" "ed_notes x"] Some
    have "existing_entry ?d2 e dt \<noteq> None" by simp
    from bulk_step_booked_fails[OF k(2) booked3[OF this] sy] have "fst ?sy \<noteq> []" by simp
    with g5 show ?thesis by (cases "fst ?sy") auto
  qed
  have conflict: "Entry (length pre + length mid + 2) Bulk_already_scheduled \<in> set errors"
    if wf: "missing_fields x = []" "references_exist d x" "references_exist d y"
  proof -
    from bulk_step_books[OF wf(1) _ k(1) sx] wf(2) refs(1)
    have "existing_entry ?d2 e dt \<noteq> None" by simp
    from bulk_step_conflict[OF _ k(2) booked3[OF this], of ?j] wf(3) refs(2)
    have "Entry (?j + 1) Bulk_already_scheduled \<in> set (fst ?sy)" by auto
    moreover have "?j + 1 = length pre + length mid + 2" by simp
    ultimately show ?thesis using g5 by auto
  qed
  from nonempty conflict show ?thesis by blast
qed

text \<open>
  Claim C7, as amended (in-batch duplicate detection). For a Manager or Admin principal
  and a batch in which the entries at indices \<open>i < j\<close> (positions \<open>i + 1\<close> and \<open>j + 1\<close>)
  ask for the same (employee, date): the whole batch is refused and the database is
  unchanged; and when entry \<open>i\<close> has its required fields and existing references (so
  that it is added to the session, or is itself a conflict) and entry \<open>j\<close> has existing
  references (so that it reaches the conflict check), the error list reports the
  duplicate at position \<open>j + 1\<close>: the conflict check sees the rows added earlier in the
  batch, and only those.
\<close>

theorem bulk_in_batch_duplicate:
  "principal_may_write d jwt \<and> i < j \<and> j < length entries \<and>
   requested_key (entries ! i) = Some k \<and> requested_key (entries ! j) = Some k \<longrightarrow>
     (\<exists>errs. create_bulk_roster d jwt entries = (Inl (Some_entries_not_created errs), d) \<and>
        (missing_fields (entries ! i) = [] \<and> references_exist d (entries ! i) \<and>
         references_exist d (entries ! j) \<longrightarrow>
           Entry (j + 1) Bulk_already_scheduled \<in> set errs))"
proof (intro impI, elim conjE)
  assume pw: "principal_may_write d jwt" and ij: "i < j" and jl: "j < length entries"
    and ki: "requested_key (entries ! i) = Some k" and kj: "requested_key (entries ! j) = Some k"
  from principal_may_writeD[OF pw] obtain u where
    u: "get_current_user d jwt = Some u" "is_admin_or_manager u" by blast
  let ?pre = "take i entries" and ?rest = "drop (Suc i) entries"
  let ?mid = "take (j - Suc i) ?rest" and ?post = "drop (Suc (j - Suc i)) ?rest"
  from ij jl have il: "i < length entries" by simp
  from ij jl have jr: "j - Suc i < length ?rest" by simp
  have yj: "?rest ! (j - Suc i) = entries ! j" using ij jl by simp
  have "entries = ?pre @ entries ! i # ?rest" by (rule id_take_nth_drop[OF il])
  also have "?rest = ?mid @ entries ! j # ?post"
    using id_take_nth_drop[OF jr] yj by simp
  finally have ent: "entries = ?pre @ entries ! i # ?mid @ entries ! j # ?post" .
  have len: "length ?pre + length ?mid + 2 = j + 1" using ij jl by simp
  obtain s c e where l: "bulk_loop d 0 entries [] [] = (s, c, e)"
    by (cases "bulk_loop d 0 entries [] []")
  obtain ke kd where k: "k = (ke, kd)" by (cases k)
  from l ent have l': "bulk_loop d 0 (?pre @ entries ! i # ?mid @ entries ! j # ?post) [] [] = (s, c, e)"
    by simp
  note dd = bulk_loop_duplicate[OF ki[unfolded k] kj[unfolded k] l', unfolded len]
  from dd have e: "e \<noteq> []" by (rule conjunct1)
  from dd have dup: "missing_fields (entries ! i) = [] \<and> references_exist d (entries ! i) \<and>
         references_exist d (entries ! j) \<longrightarrow> Entry (j + 1) Bulk_already_scheduled \<in> set e"
    by (rule conjunct2)
  from jl have ne: "entries \<noteq> []" by auto
  have "create_bulk_roster d jwt entries = (Inl (Some_entries_not_created e), d)"
    by (simp add: create_bulk_roster_def u ne l e)
  with dup show "\<exists>errs. create_bulk_roster d jwt entries = (Inl (Some_entries_not_created errs), d) \<and>
        (missing_fields (entries ! i) = [] \<and> references_exist d (entries ! i) \<and>
         references_exist d (entries ! j) \<longrightarrow>
           Entry (j + 1) Bulk_already_scheduled \<in> set errs)"
    by blast
qed

text \<open>
  A batch whose first and third entries book employee 8 on 2024-03-01 (the third writes
  the date as 2024-3-1): the only error is the duplicate at position 3, and nothing is
  persisted.
\<close>

theorem bulk_in_batch_duplicate_witness:
  "principal_may_write e7_db 2 \<and> (0::nat) < 2 \<and> 2 < length duplicate_batch \<and>
   requested_key (duplicate_batch ! 0) = Some (8, 738946) \<and>
   requested_key (duplicate_batch ! 2) = Some (8, 738946) \<and>
   missing_fields (duplicate_batch ! 0) = [] \<and> references_exist e7_db (duplicate_batch ! 0) \<and>
   references_exist e7_db (duplicate_batch ! 2) \<and>
   create_bulk_roster e7_db 2 duplicate_batch =
     (Inl (Some_entries_not_created [Entry 3 Bulk_already_scheduled]), e7_db)"
proof -
  have pw: "principal_may_write e7_db 2"
    by (simp add: principal_may_write_def handler_defs scenario_defs)
  have len: "2 < length duplicate_batch"
    by (simp add: duplicate_batch_def)
  have k0: "requested_key (duplicate_batch ! 0) = Some (8, 738946)"
    by (simp add: duplicate_batch_def requested_key_def request_def date_2024_03_01)
  have k2: "requested_key (duplicate_batch ! 2) = Some (8, 738946)"
    by (simp add: duplicate_batch_def requested_key_def request_def date_2024_3_1)
  have wf: "missing_fields (duplicate_batch ! 0) = []" "references_exist e7_db (duplicate_batch ! 0)"
    "references_exist e7_db (duplicate_batch ! 2)"
    by (simp_all add: duplicate_batch_def references_exist_def handler_defs scenario_defs)
  have f: "fst (create_bulk_roster e7_db 2 duplicate_batch) =
      Inl (Some_entries_not_created [Entry 3 Bulk_already_scheduled])"
    by (simp add: duplicate_batch_def bulk_defs handler_defs scenario_defs date_2024_03_01
        date_2024_3_1)
  from bulk_in_batch_duplicate[of e7_db 2 0 2 duplicate_batch "(8, 738946)"] pw len k0 k2
  have "snd (create_bulk_roster e7_db 2 duplicate_batch) = e7_db"
    by auto
  with f have "create_bulk_roster e7_db 2 duplicate_batch =
     (Inl (Some_entries_not_created [Entry 3 Bulk_already_scheduled]), e7_db)"
    by (metis prod.collapse)
  with pw len k0 k2 wf show ?thesis by simp
qed

text \<open>
  Claim C7 as stated fails: the first entry of the batch is refused for its shift and
  is not added to the session, so the second entry, for the same employee and date,
  passes the conflict check and is given no error.
\<close>

theorem bulk_unadded_duplicate_counterexample:
  "requested_key (unadded_batch ! 0) = Some (8, 738946) \<and>
   requested_key (unadded_batch ! 1) = Some (8, 738946) \<and>
   create_bulk_roster e7_db 2 unadded_batch =
     (Inl (Some_entries_not_created [Entry 1 Bulk_shift_not_found]), e7_db) \<and>
   Entry 2 Bulk_already_scheduled \<notin> set [Entry 1 Bulk_shift_not_found]"
  by (simp add: unadded_batch_def requested_key_def bulk_defs handler_defs scenario_defs
      date_2024_03_01)

subsection \<open>Dashboard metrics\<close>








subsection \<open>Listing\<close>

lemma role_query_filter:
  "role_query d u = filter (\<lambda>r. is_admin_or_manager u \<or> sr_employee_id r = u_id u) (db_roster d)"
  by (auto simp: role_query_def is_admin_or_manager_def)

lemma filter_start_supplied:
  "supplied_date start_date = Some sd \<Longrightarrow>
     filter_start start_date q = Inr (filter (\<lambda>r. case sd of None \<Rightarrow> True | Some a \<Rightarrow> a \<le> sr_date r) q)"
  by (auto simp: supplied_date_def supplied_text_def filter_start_def split: option.splits if_splits)

lemma filter_end_supplied:
  "supplied_date end_date = Some ed \<Longrightarrow>
     filter_end end_date q = Inr (filter (\<lambda>r. case ed of None \<Rightarrow> True | Some b \<Rightarrow> sr_date r \<le> b) q)"
  by (auto simp: supplied_date_def supplied_text_def filter_end_def split: option.splits if_splits)

lemma filter_rest_supplied:
  "filter_rest args q =
     filter (\<lambda>r. (case supplied_id (ra_employee_id args) of None \<Rightarrow> True | Some e \<Rightarrow> sr_employee_id r = e) \<and>
                 (case supplied_id (ra_shift_id args) of None \<Rightarrow> True | Some s \<Rightarrow> sr_shift_id r = s) \<and>
                 (case supplied_text (ra_status args) of None \<Rightarrow> True | Some t \<Rightarrow> sr_status r = t)) q"
proof -
  have e: "(if truthy_int x then filter (\<lambda>r. Some (f r) = x) xs else xs) =
           filter (\<lambda>r. case supplied_id x of None \<Rightarrow> True | Some e \<Rightarrow> f r = e) xs" for x f and xs :: "shift_roster list"
    by (cases x) (auto simp: truthy_int_def supplied_id_def)
  have t: "(if truthy_str x then filter (\<lambda>r. Some (f r) = x) xs else xs) =
           filter (\<lambda>r. case supplied_text x of None \<Rightarrow> True | Some e \<Rightarrow> f r = e) xs" for x f and xs :: "shift_roster list"
    by (cases x) (auto simp: truthy_str_def supplied_text_def)
  show ?thesis
    unfolding filter_rest_def Let_def e t by (simp add: conj_commute conj_left_commute)
qed

lemma filter_start_subset: "filter_start x q = Inr q' \<Longrightarrow> set q' \<subseteq> set q"
  by (auto simp: filter_start_def split: option.splits if_splits)

lemma filter_end_subset: "filter_end x q = Inr q' \<Longrightarrow> set q' \<subseteq> set q"
  by (auto simp: filter_end_def split: option.splits if_splits)

lemma filter_rest_subset: "set (filter_rest args q) \<subseteq> set q"
  by (simp add: filter_rest_supplied)

lemma join_shift_fst: "set (map fst (join_shift d q)) \<subseteq> set q"
  by (auto simp: join_shift_def)

lemma join_shift_intact:
  "\<forall>r \<in> set q. length (filter (\<lambda>s. s_id s = sr_shift_id r) (db_shifts d)) = 1 \<Longrightarrow>
     map fst (join_shift d q) = q"
proof (induction q)
  case Nil
  then show ?case by (simp add: join_shift_def)
next
  case (Cons r q)
  then obtain s where "filter (\<lambda>s. s_id s = sr_shift_id r) (db_shifts d) = [s]"
    by (auto simp: length_Suc_conv)
  with Cons show ?case by (simp add: join_shift_def)
qed

lemma mset_listing: "mset (map fst (sort_key order_key xs)) = mset (map fst xs)"
  by (metis mset_map mset_sort)

lemma get_roster_own:
  assumes "get_current_user d jwt = Some u" and "\<not> is_admin_or_manager u"
    and "get_roster d jwt args = Inr rs"
  shows "\<forall>r \<in> set rs. sr_employee_id r = jwt"
proof -
  from assms(1) have id: "u_id u = jwt"
    by (auto simp: get_current_user_def dest: user_get_id)
  from assms(3) obtain q1 q2 where q1: "filter_start (ra_start_date args) (role_query d u) = Inr q1"
    and q2: "filter_end (ra_end_date args) q1 = Inr q2"
    and rs: "rs = map fst (sort_key order_key (join_shift d (filter_rest args q2)))"
    by (auto simp: get_roster_def assms(1) split: sum.splits)
  have "set rs = set (map fst (join_shift d (filter_rest args q2)))"
    by (simp add: rs)
  also have "\<dots> \<subseteq> set (filter_rest args q2)" by (rule join_shift_fst)
  also have "\<dots> \<subseteq> set q2" by (rule filter_rest_subset)
  also have "\<dots> \<subseteq> set q1" by (rule filter_end_subset[OF q2])
  also have "\<dots> \<subseteq> set (role_query d u)" by (rule filter_start_subset[OF q1])
  finally have "set rs \<subseteq> set (role_query d u)" .
  with assms(2) id show ?thesis
    by (auto simp: role_query_filter)
qed

lemma get_roster_exact:
  assumes u: "get_current_user d jwt = Some u" and fk: "shifts_intact d"
    and sd: "supplied_date (ra_start_date args) = Some sd"
    and ed: "supplied_date (ra_end_date args) = Some ed"
  shows "\<exists>rs. get_roster d jwt args = Inr rs \<and>
     mset rs = mset (filter (\<lambda>r. (is_admin_or_manager u \<or> sr_employee_id r = jwt) \<and>
        matches sd ed (supplied_id (ra_employee_id args)) (supplied_id (ra_shift_id args))
          (supplied_text (ra_status args)) r) (db_roster d))"
proof -
  from u have id: "u_id u = jwt"
    by (auto simp: get_current_user_def dest: user_get_id)
  let ?q = "filter_rest args
      (filter (\<lambda>r. case ed of None \<Rightarrow> True | Some b \<Rightarrow> sr_date r \<le> b)
        (filter (\<lambda>r. case sd of None \<Rightarrow> True | Some a \<Rightarrow> a \<le> sr_date r) (role_query d u)))"
  have g: "get_roster d jwt args = Inr (map fst (sort_key order_key (join_shift d ?q)))"
    by (simp add: get_roster_def u filter_start_supplied[OF sd] filter_end_supplied[OF ed])
  have sub: "set ?q \<subseteq> set (db_roster d)"
    by (auto simp: filter_rest_supplied role_query_filter)
  from fk have "\<forall>r \<in> set (db_roster d). length (filter (\<lambda>s. s_id s = sr_shift_id r) (db_shifts d)) = 1"
    by (simp add: shifts_intact_def list_all_iff)
  with sub have "\<forall>r \<in> set ?q. length (filter (\<lambda>s. s_id s = sr_shift_id r) (db_shifts d)) = 1"
    by blast
  from join_shift_intact[OF this] have j: "map fst (join_shift d ?q) = ?q" .
  have q: "?q = filter (\<lambda>r. (is_admin_or_manager u \<or> sr_employee_id r = jwt) \<and>
        matches sd ed (supplied_id (ra_employee_id args)) (supplied_id (ra_shift_id args))
          (supplied_text (ra_status args)) r) (db_roster d)"
    unfolding filter_rest_supplied role_query_filter id filter_filter matches_def
    by (rule filter_cong) auto
  have "mset (map fst (sort_key order_key (join_shift d ?q))) = mset ?q"
    by (simp only: mset_listing j)
  with g q show ?thesis by simp
qed

text \<open>
  Claim C5, as amended (visibility scoping of the roster listing). For a principal whose
  role is neither Admin nor Manager, every entry of a listing has the principal's own
  id as its employee id, whatever the filters. For an Admin or Manager, when every
  roster row has its shift and the supplied date strings parse, the listing holds
  exactly the entries, of all employees, that match the supplied filters, where an
  employee id or shift id of 0 and an empty status or date string are read as no filter.
\<close>

theorem roster_visibility:
  "(get_current_user d jwt = Some u \<and> \<not> is_admin_or_manager u \<and> get_roster d jwt args = Inr rs \<longrightarrow>
      (\<forall>r \<in> set rs. sr_employee_id r = jwt)) \<and>
   (get_current_user d jwt = Some u \<and> is_admin_or_manager u \<and> shifts_intact d \<and>
    supplied_date (ra_start_date args) = Some sd \<and> supplied_date (ra_end_date args) = Some ed \<longrightarrow>
      (\<exists>listed. get_roster d jwt args = Inr listed \<and>
         mset listed =
           mset (filter (matches sd ed (supplied_id (ra_employee_id args))
                           (supplied_id (ra_shift_id args)) (supplied_text (ra_status args)))
                   (db_roster d))))"
proof (intro conjI impI)
  assume "get_current_user d jwt = Some u \<and> \<not> is_admin_or_manager u \<and> get_roster d jwt args = Inr rs"
  then show "\<forall>r \<in> set rs. sr_employee_id r = jwt"
    using get_roster_own by blast
next
  assume a: "get_current_user d jwt = Some u \<and> is_admin_or_manager u \<and> shifts_intact d \<and>
    supplied_date (ra_start_date args) = Some sd \<and> supplied_date (ra_end_date args) = Some ed"
  then have u: "get_current_user d jwt = Some u" and m: "is_admin_or_manager u"
    and fk: "shifts_intact d" and sd: "supplied_date (ra_start_date args) = Some sd"
    and ed: "supplied_date (ra_end_date args) = Some ed"
    by simp_all
  from get_roster_exact[OF u fk sd ed] m
  show "\<exists>listed. get_roster d jwt args = Inr listed \<and>
         mset listed =
           mset (filter (matches sd ed (supplied_id (ra_employee_id args))
                           (supplied_id (ra_shift_id args)) (supplied_text (ra_status args)))
                   (db_roster d))"
    by simp
qed

lemmas listing_defs = get_roster_def role_query_def filter_start_def filter_end_def filter_rest_def
  join_shift_def order_key_def truthy_int_def truthy_str_def no_args_def employee_args_def
  status_args_def

text \<open>
  Claim C5 as stated fails: the Manager asks for the entries of employee id 0, which no
  entry matches, and is given the entry of employee 7.
\<close>

theorem roster_zero_filter_counterexample:
  "principal_may_write e7_db 2 \<and>
   get_roster e7_db 2 (employee_args 0) = Inr [e7_entry] \<and>
   sr_employee_id e7_entry = 7 \<and>
   filter (matches None None (Some 0) None None) (db_roster e7_db) = []"
  by (simp add: principal_may_write_def listing_defs handler_defs scenario_defs matches_def)

text \<open>
  With the rows of employees 7 and 8 in the table: employee 8 asking for the entries of
  employee 7 is given none, and the Manager asking for the approved entries is given
  the approved entry of employee 7.
\<close>

theorem roster_visibility_witness:
  "get_current_user two_db 8 = Some (employee_row 8) \<and> \<not> is_admin_or_manager (employee_row 8) \<and>
   get_roster two_db 8 (employee_args 7) = Inr [] \<and>
   get_roster two_db 8 no_args = Inr [pending_entry] \<and>
   get_current_user two_db 2 = Some (employee_row 2) \<and> is_admin_or_manager (employee_row 2) \<and>
   shifts_intact two_db \<and>
   get_roster two_db 2 (status_args ''approved'') = Inr [e7_entry]"
proof -
  have u8: "get_current_user two_db 8 = Some (employee_row 8)" "\<not> is_admin_or_manager (employee_row 8)"
    by (simp_all add: handler_defs two_defs)
  have u2: "get_current_user two_db 2 = Some (employee_row 2)" "is_admin_or_manager (employee_row 2)"
    by (simp_all add: handler_defs two_defs)
  have fk: "shifts_intact two_db"
    by (simp add: shifts_intact_def two_defs)
  have g1: "get_roster two_db 8 (employee_args 7) = Inr []"
    by (simp add: listing_defs handler_defs two_defs)
  have g2: "get_roster two_db 8 no_args = Inr [pending_entry]"
    by (simp add: listing_defs handler_defs two_defs)
  have sup: "supplied_date (ra_start_date (status_args ''approved'')) = Some None"
    "supplied_date (ra_end_date (status_args ''approved'')) = Some None"
    by (simp_all add: supplied_date_def supplied_text_def status_args_def no_args_def)
  have f: "filter (matches None None (supplied_id (ra_employee_id (status_args ''approved'')))
                           (supplied_id (ra_shift_id (status_args ''approved'')))
                           (supplied_text (ra_status (status_args ''approved''))))
                   (db_roster two_db) = [e7_entry]"
    by (simp add: matches_def supplied_id_def supplied_text_def status_args_def no_args_def two_defs)
  from roster_visibility[of two_db 2 "employee_row 2" "status_args ''approved''" "[]" None None]
    u2 fk sup
  obtain listed where "get_roster two_db 2 (status_args ''approved'') = Inr listed"
    and "mset listed = mset [e7_entry]"
    unfolding f by blast
  then have g3: "get_roster two_db 2 (status_args ''approved'') = Inr [e7_entry]"
    by simp
  from u8 u2 fk g1 g2 g3 show ?thesis by simp
qed

end
